theory Spec2Isabelle
  imports Complex_Main "HOL-Library.Char_ord" "HOL-Library.List_Lexorder"
begin

section \<open>Tables\<close>

text \<open>
  The program works on pandas data frames. A cell is a text, a number or the missing
  value (pandas' NaN). Numbers are real numbers: binary floating point rounding and
  the infinite floats are outside the model. A row maps a column name to its cell, and
  a column that a row has no entry for reads as missing. A table holds its column
  names, the dtype pandas keeps for each column (text columns are \<open>Object\<close>), and its
  rows in order.
\<close>

datatype cell = Str string | Num real | NaN

datatype dtype = Object | Numeric

type_synonym row = "string \<rightharpoonup> cell"

record table =
  columns :: "string list"
  dtypes :: "string \<Rightarrow> dtype"
  rows :: "row list"

datatype error =
    KeyError string
  | ValueError string
  | TypeError
  | AttributeError
  | ZeroDivisionError

definition has_col :: "table \<Rightarrow> string \<Rightarrow> bool" where
  \<comment> \<open>\<^verbatim>\<open>col in df.columns\<close>\<close>
  "has_col t c = (c \<in> set (columns t))"

definition cell_of :: "row \<Rightarrow> string \<Rightarrow> cell" where
  "cell_of r c = (case r c of Some v \<Rightarrow> v | None \<Rightarrow> NaN)"

definition column :: "table \<Rightarrow> string \<Rightarrow> cell list" where
  \<comment> \<open>\<^verbatim>\<open>df[c]\<close> for a column that exists\<close>
  "column t c = map (\<lambda>r. cell_of r c) (rows t)"

definition is_Str :: "cell \<Rightarrow> bool" where
  "is_Str c = (case c of Str _ \<Rightarrow> True | _ \<Rightarrow> False)"

definition select :: "(row \<Rightarrow> bool) \<Rightarrow> table \<Rightarrow> table" where
  \<comment> \<open>\<^verbatim>\<open>df[mask]\<close>: the rows whose mask is true, in order; columns and dtypes stay\<close>
  "select p t = t\<lparr>rows := filter p (rows t)\<rparr>"

definition map_col :: "string \<Rightarrow> (cell \<Rightarrow> cell) \<Rightarrow> row \<Rightarrow> row" where
  "map_col c f r = (case r c of Some v \<Rightarrow> r(c \<mapsto> f v) | None \<Rightarrow> r)"

fun unique :: "'a list \<Rightarrow> 'a list" where
  \<comment> \<open>\<^verbatim>\<open>Series.unique()\<close>: the distinct values in order of first appearance; the missing
      value appears once\<close>
  "unique [] = []"
| "unique (x # xs) = x # unique (filter (\<lambda>y. y \<noteq> x) xs)"

section \<open>The standardizer\<close>

text \<open>
  The object of class \<^verbatim>\<open>OlympicDataStandardizer\<close> after \<^verbatim>\<open>load_data\<close>: its four tables,
  and the active subset once it has been derived. Every method takes the state and
  returns the new one, or the exception it raises. Console output is modelled only
  where a property below is about it, as a value returned beside the state.
\<close>

record standardizer =
  athletes :: table
  hosts :: table
  medals :: table
  programs :: table
  active_athletes :: "table option"

subsection \<open>Historical anomalies\<close>

definition delete_1906 :: "table \<Rightarrow> table \<times> nat" where
  \<comment> \<open>lines 53-55 (athletes) and 60-62 (medals): the filter on the edition label and
      the count of deleted rows\<close>
  "delete_1906 t =
     (let initial_count = length (rows t);
          t' = select (\<lambda>r. cell_of r ''edition'' \<noteq> Str ''1906 Summer Olympics'') t
      in (t', initial_count - length (rows t')))"

definition sortable :: "cell list \<Rightarrow> bool" where
  \<comment> \<open>\<^verbatim>\<open>sorted(values)\<close> raises TypeError when a text is compared with a number or with
      the missing value (a float)\<close>
  "sortable cs = (\<not> (list_ex is_Str cs \<and> list_ex (\<lambda>c. \<not> is_Str c) cs))"

definition handle_historical_anomalies ::
  "standardizer \<Rightarrow> error + (standardizer \<times> nat \<times> nat option)" where
  \<comment> \<open>returns the state and the two printed counts (the second only when the medals
      table has an edition column)\<close>
  "handle_historical_anomalies s =
     (if \<not> has_col (athletes s) ''edition'' then Inl (KeyError ''edition'')
      else
        let (a, deleted_1906) = delete_1906 (athletes s);
            (m, deleted_medals_1906) =
              (if has_col (medals s) ''edition''
               then (let (m', k) = delete_1906 (medals s) in (m', Some k))
               else (medals s, None))
        in if \<not> sortable (unique (column a ''edition'')) then Inl TypeError
           else Inr (s\<lparr>athletes := a, medals := m\<rparr>, deleted_1906, deleted_medals_1906))"

subsection \<open>Country codes\<close>

definition country_mapping :: "(string \<times> string) list" where
  "country_mapping =
     [(''URS'', ''RUS''), (''EUN'', ''RUS''), (''GDR'', ''GER''), (''FRG'', ''GER'')]"

definition replace_cell :: "(string \<times> string) list \<Rightarrow> cell \<Rightarrow> cell" where
  \<comment> \<open>\<^verbatim>\<open>Series.replace(dict)\<close> on one value: a value equal to a key becomes that key's
      value, in one pass; every other value stays\<close>
  "replace_cell m c =
     (case c of
        Str x \<Rightarrow> (case map_of m x of Some v \<Rightarrow> Str v | None \<Rightarrow> c)
      | _ \<Rightarrow> c)"

definition consolidate :: "(string \<times> string) list \<Rightarrow> string \<Rightarrow> table \<Rightarrow> table \<times> nat" where
  \<comment> \<open>lines 100-104 (athletes) and 118-119 (medals), with the dictionary and the
      dropped code as parameters: replace, count the rows to drop, drop them\<close>
  "consolidate mapping sentinel t =
     (let t1 = t\<lparr>rows := map (map_col ''noc'' (replace_cell mapping)) (rows t)\<rparr>;
          mixed_team_count =
            length (rows (select (\<lambda>r. cell_of r ''noc'' = Str sentinel) t1));
          t2 = select (\<lambda>r. cell_of r ''noc'' \<noteq> Str sentinel) t1
      in (t2, mixed_team_count))"

definition standardize_noc :: "table \<Rightarrow> table \<times> nat option" where
  \<comment> \<open>the guarded block of lines 96-104 and of lines 117-119: nothing happens to a
      table without the column\<close>
  "standardize_noc t =
     (if has_col t ''noc''
      then (let (t', k) = consolidate country_mapping ''MIX'' t in (t', Some k))
      else (t, None))"

definition standardize_country_codes ::
  "standardizer \<Rightarrow> error + (standardizer \<times> nat option)" where
  \<comment> \<open>line 124 reads the athletes' noc column with no guard\<close>
  "standardize_country_codes s =
     (let (a, mixed_team_count) = standardize_noc (athletes s);
          m = fst (standardize_noc (medals s))
      in if \<not> has_col a ''noc'' then Inl (KeyError ''noc'')
         else Inr (s\<lparr>athletes := a, medals := m\<rparr>, mixed_team_count))"

subsection \<open>The active subset\<close>

text \<open>
  A text is held as the bytes of its UTF-8 encoding. In a pattern over \<^verbatim>\<open>str\<close>, \<^verbatim>\<open>\d\<close>
  matches every Unicode decimal digit (general category Nd), and \<^verbatim>\<open>float\<close> reads each
  such digit by its decimal value. The decimal digits come in blocks of ten consecutive
  code points, zero first; \<open>decimal_zeros\<close> lists the zero of every block
  (Unicode 14.0, the data of CPython 3.11). \<^verbatim>\<open>str.extract(r'(\d{4})')\<close> gives the leftmost
  four consecutive decimal digits of a text. A decimal digit starts at no continuation
  byte, so trying every byte offset in turn tries every character in turn.
\<close>

definition decimal_zeros :: "nat list" where
  "decimal_zeros =
     [48, 1632, 1776, 1984, 2406, 2534, 2662, 2790, 2918, 3046, 3174, 3302, 3430, 3558,
      3664, 3792, 3872, 4160, 4240, 6112, 6160, 6470, 6608, 6784, 6800, 6992, 7088, 7232,
      7248, 42528, 43216, 43264, 43472, 43504, 43600, 44016, 65296, 66720, 68912, 69734,
      69872, 69942, 70096, 70384, 70736, 70864, 71248, 71360, 71472, 71904, 72016, 72784,
      73040, 73120, 92768, 92864, 93008, 120782, 120792, 120802, 120812, 120822, 123200,
      123632, 125264, 130032]"

definition decimal_value :: "nat \<Rightarrow> nat option" where
  \<comment> \<open>the decimal value of a code point, \<open>None\<close> for a code point that is no decimal digit\<close>
  "decimal_value cp =
     map_option (\<lambda>z. cp - z) (find (\<lambda>z. z \<le> cp \<and> cp < z + 10) decimal_zeros)"

definition continuation :: "char \<Rightarrow> nat option" where
  \<comment> \<open>the six bits a continuation byte \<open>10xxxxxx\<close> carries\<close>
  "continuation b =
     (let n = of_char b :: nat in if 128 \<le> n \<and> n < 192 then Some (n - 128) else None)"

fun utf8_head :: "string \<Rightarrow> (nat \<times> string) option" where
  \<comment> \<open>the first code point of a UTF-8 text and the bytes after it\<close>
  "utf8_head [] = None"
| "utf8_head (b # bs) =
     (let n = of_char b :: nat in
      if n < 128 then Some (n, bs)
      else if 194 \<le> n \<and> n < 224 then
        (case bs of
           b1 # r \<Rightarrow>
             (case continuation b1 of
                Some c1 \<Rightarrow> Some ((n - 192) * 64 + c1, r)
              | None \<Rightarrow> None)
         | _ \<Rightarrow> None)
      else if 224 \<le> n \<and> n < 240 then
        (case bs of
           b1 # b2 # r \<Rightarrow>
             (case (continuation b1, continuation b2) of
                (Some c1, Some c2) \<Rightarrow> Some ((n - 224) * 4096 + c1 * 64 + c2, r)
              | _ \<Rightarrow> None)
         | _ \<Rightarrow> None)
      else if 240 \<le> n \<and> n < 245 then
        (case bs of
           b1 # b2 # b3 # r \<Rightarrow>
             (case (continuation b1, continuation b2, continuation b3) of
                (Some c1, Some c2, Some c3) \<Rightarrow>
                  Some ((n - 240) * 262144 + c1 * 4096 + c2 * 64 + c3, r)
              | _ \<Rightarrow> None)
         | _ \<Rightarrow> None)
      else None)"

definition read_digit :: "string \<Rightarrow> (nat \<times> string) option" where
  \<comment> \<open>\<^verbatim>\<open>\d\<close> at the head of a text: the value of the digit and the text after it\<close>
  "read_digit x =
     (case utf8_head x of
        None \<Rightarrow> None
      | Some (cp, rest) \<Rightarrow>
          (case decimal_value cp of None \<Rightarrow> None | Some v \<Rightarrow> Some (v, rest)))"

definition read4 :: "string \<Rightarrow> (nat list \<times> string) option" where
  \<comment> \<open>\<^verbatim>\<open>\d{4}\<close> at the head of a text: the values of the four digits and the text after\<close>
  "read4 x =
     (case read_digit x of
        None \<Rightarrow> None
      | Some (d1, x1) \<Rightarrow>
          (case read_digit x1 of
             None \<Rightarrow> None
           | Some (d2, x2) \<Rightarrow>
               (case read_digit x2 of
                  None \<Rightarrow> None
                | Some (d3, x3) \<Rightarrow>
                    (case read_digit x3 of
                       None \<Rightarrow> None
                     | Some (d4, x4) \<Rightarrow> Some ([d1, d2, d3, d4], x4)))))"

fun extract4 :: "string \<Rightarrow> nat list option" where
  \<comment> \<open>the search of the pattern from the left: the digits of the first match\<close>
  "extract4 [] = None"
| "extract4 (b # bs) =
     (case read4 (b # bs) of
        Some (ds, _) \<Rightarrow> Some ds
      | None \<Rightarrow> extract4 bs)"

definition digits_value :: "nat list \<Rightarrow> nat" where
  \<comment> \<open>the number a sequence of decimal digits writes\<close>
  "digits_value ds = foldl (\<lambda>n d. 10 * n + d) 0 ds"

definition extract_year :: "cell \<Rightarrow> cell" where
  \<comment> \<open>\<^verbatim>\<open>.str.extract(r'(\d{4})').astype(float)\<close> on one value: a value that is not a
      text, or a text with no match, gives the missing value\<close>
  "extract_year c =
     (case c of
        Str x \<Rightarrow> (case extract4 x of Some ds \<Rightarrow> Num (real (digits_value ds)) | None \<Rightarrow> NaN)
      | _ \<Rightarrow> NaN)"

definition str_accessor_ok :: "table \<Rightarrow> string \<Rightarrow> bool" where
  \<comment> \<open>\<^verbatim>\<open>Series.str\<close> raises AttributeError on a numeric column, and on an object column
      that holds numbers and no text\<close>
  "str_accessor_ok t c =
     (dtypes t c = Object \<and>
      \<not> (list_ex (\<lambda>v. case v of Num _ \<Rightarrow> True | _ \<Rightarrow> False) (column t c) \<and>
         \<not> list_ex is_Str (column t c)))"

definition to_numeric :: "(string \<Rightarrow> real option) \<Rightarrow> cell \<Rightarrow> cell" where
  \<comment> \<open>\<^verbatim>\<open>pd.to_numeric(..., errors='coerce')\<close> on one value. \<open>parse\<close> is pandas' reading of
      a text as a number, \<open>None\<close> where the text is not one\<close>
  "to_numeric parse c =
     (case c of
        Str x \<Rightarrow> (case parse x of Some y \<Rightarrow> Num y | None \<Rightarrow> NaN)
      | _ \<Rightarrow> c)"

definition year_ge :: "real \<Rightarrow> cell \<Rightarrow> bool" where
  \<comment> \<open>\<^verbatim>\<open>value >= cutoff_year\<close> on a numeric column: false for the missing value\<close>
  "year_ge cutoff c = (case c of Num y \<Rightarrow> cutoff \<le> y | _ \<Rightarrow> False)"

definition find_year_col :: "table \<Rightarrow> string option" where
  \<comment> \<open>lines 136-140\<close>
  "find_year_col t = find (has_col t) [''year'', ''edition_year'', ''games_year'']"

definition set_column :: "string \<Rightarrow> dtype \<Rightarrow> (row \<Rightarrow> cell) \<Rightarrow> table \<Rightarrow> table" where
  \<comment> \<open>\<^verbatim>\<open>df[c] = values\<close>: a new column is appended, an existing one is overwritten\<close>
  "set_column c d f t =
     \<lparr>columns = (if c \<in> set (columns t) then columns t else columns t @ [c]),
      dtypes = (dtypes t)(c := d),
      rows = map (\<lambda>r. r(c \<mapsto> f r)) (rows t)\<rparr>"

definition resolve_year_col :: "table \<Rightarrow> error + (table \<times> string)" where
  \<comment> \<open>lines 136-149\<close>
  "resolve_year_col t =
     (case find_year_col t of
        Some year_col \<Rightarrow> Inr (t, year_col)
      | None \<Rightarrow>
          if has_col t ''edition'' then
            (if str_accessor_ok t ''edition''
             then Inr (set_column ''year'' Numeric (\<lambda>r. extract_year (cell_of r ''edition'')) t,
                       ''year'')
             else Inl AttributeError)
          else Inl (ValueError ''Cannot find year information in athletes dataset''))"

record subset_report =
  total_athletes :: nat
  active_count :: nat
  inactive_count :: nat
  retention_rate :: real

definition retention :: "nat \<Rightarrow> nat \<Rightarrow> error + real" where
  \<comment> \<open>\<^verbatim>\<open>active_count/total_athletes*100\<close> on Python integers\<close>
  "retention n m =
     (if m = 0 then Inl ZeroDivisionError else Inr (real n / real m * 100))"

definition create_active_athletes_subset ::
  "(string \<Rightarrow> real option) \<Rightarrow> standardizer \<Rightarrow> real \<Rightarrow> error + (standardizer \<times> subset_report)" where
  "create_active_athletes_subset parse s cutoff_year =
     (case resolve_year_col (athletes s) of
        Inl e \<Rightarrow> Inl e
      | Inr (t, year_col) \<Rightarrow>
          let a = set_column year_col Numeric (\<lambda>r. to_numeric parse (cell_of r year_col)) t;
              active = select (\<lambda>r. year_ge cutoff_year (cell_of r year_col)) a;
              m = length (rows a);
              n = length (rows active)
          in (case retention n m of
                Inl e \<Rightarrow> Inl e
              | Inr pct \<Rightarrow>
                  Inr (s\<lparr>athletes := a, active_athletes := Some active\<rparr>,
                       \<lparr>total_athletes = m, active_count = n,
                        inactive_count = m - n, retention_rate = pct\<rparr>)))"

subsection \<open>Validation\<close>

text \<open>
  \<^verbatim>\<open>validate_data_quality\<close> has no return statement: it prints its findings and returns
  \<^verbatim>\<open>None\<close>. The model returns the lines it prints, in order, and the unit value for
  \<^verbatim>\<open>None\<close>. Python's \<^verbatim>\<open>int\<close> truncates a float towards zero and reads a text through
  \<open>py_int\<close>, Python's own parser, \<open>None\<close> where it raises ValueError. An infinite float,
  on which \<^verbatim>\<open>int\<close> raises OverflowError, is no value of the model.
\<close>

definition py_trunc :: "real \<Rightarrow> int" where
  "py_trunc x = (if 0 \<le> x then \<lfloor>x\<rfloor> else \<lceil>x\<rceil>)"

definition int_of_cell :: "(string \<Rightarrow> int option) \<Rightarrow> cell \<Rightarrow> error + int" where
  "int_of_cell py_int c =
     (case c of
        Num x \<Rightarrow> Inr (py_trunc x)
      | Str x \<Rightarrow>
          (case py_int x of
             Some i \<Rightarrow> Inr i
           | None \<Rightarrow> Inl (ValueError ''invalid literal for int() with base 10''))
      | NaN \<Rightarrow> Inl (ValueError ''cannot convert float NaN to integer''))"

definition cell_less :: "cell \<Rightarrow> cell \<Rightarrow> bool" where
  \<comment> \<open>\<^verbatim>\<open><\<close> between two numbers or two texts (texts by code point, a prefix first)\<close>
  "cell_less a b =
     (case (a, b) of
        (Num x, Num y) \<Rightarrow> x < y
      | (Str x, Str y) \<Rightarrow> x < y
      | _ \<Rightarrow> False)"

fun min_cells :: "cell \<Rightarrow> cell list \<Rightarrow> cell" where
  "min_cells a [] = a"
| "min_cells a (b # bs) = min_cells (if cell_less b a then b else a) bs"

fun max_cells :: "cell \<Rightarrow> cell list \<Rightarrow> cell" where
  "max_cells a [] = a"
| "max_cells a (b # bs) = max_cells (if cell_less a b then b else a) bs"

definition dropna :: "cell list \<Rightarrow> cell list" where
  "dropna cs = filter (\<lambda>c. c \<noteq> NaN) cs"

definition year_range :: "(string \<Rightarrow> int option) \<Rightarrow> cell list \<Rightarrow> error + (int \<times> int)" where
  \<comment> \<open>lines 198-199 on the year column: \<^verbatim>\<open>sorted\<close> of the distinct values that are
      not missing, then \<^verbatim>\<open>int(min(years))\<close> and \<^verbatim>\<open>int(max(years))\<close>\<close>
  "year_range py_int col =
     (let years = unique (dropna col)
      in if \<not> sortable years then Inl TypeError
         else
           (case years of
              [] \<Rightarrow> Inl (ValueError ''min() arg is an empty sequence'')
            | y # ys \<Rightarrow>
                (case int_of_cell py_int (min_cells y ys) of
                   Inl e \<Rightarrow> Inl e
                 | Inr lo \<Rightarrow>
                     (case int_of_cell py_int (max_cells y ys) of
                        Inl e \<Rightarrow> Inl e
                      | Inr hi \<Rightarrow> Inr (lo, hi)))))"

datatype message =
    Title
  | YearRange int int
  | GapWarning nat
  | GapMissing nat
  | CodeWarning string
  | CodeRemoved string
  | NullTitle
  | NullCount string nat "real option"

text \<open>
  The lines, as the source prints them: the title; \<^verbatim>\<open>Year range: lo - hi\<close>;
  \<^verbatim>\<open>WARNING: g should be a gap year!\<close> or \<^verbatim>\<open>g properly missing (WWII)\<close>;
  \<^verbatim>\<open>WARNING: c still present in data!\<close> or \<^verbatim>\<open>c properly removed/merged\<close>; the title of
  the null check; \<^verbatim>\<open>col: n nulls (p%)\<close>.
\<close>

definition gap_line :: "cell list \<Rightarrow> nat \<Rightarrow> message" where
  \<comment> \<open>lines 204-207: \<^verbatim>\<open>gap_year in years\<close> compares by \<^verbatim>\<open>==\<close>, so no text equals it\<close>
  "gap_line years gap_year =
     (if Num (real gap_year) \<in> set years then GapWarning gap_year else GapMissing gap_year)"

definition code_line :: "cell list \<Rightarrow> string \<Rightarrow> message" where
  \<comment> \<open>lines 213-216\<close>
  "code_line nocs code = (if Str code \<in> set nocs then CodeWarning code else CodeRemoved code)"

definition null_line :: "table \<Rightarrow> string \<Rightarrow> message" where
  \<comment> \<open>lines 222-224. The count is a numpy integer, so a division by zero rows gives
      nan (\<open>None\<close> here) and raises nothing\<close>
  "null_line t c =
     (let null_count = length (filter (\<lambda>v. v = NaN) (column t c));
          n = length (rows t)
      in NullCount c null_count
           (if n = 0 then None else Some (real null_count / real n * 100)))"

definition validate_data_quality ::
  "(string \<Rightarrow> int option) \<Rightarrow> standardizer \<Rightarrow> error + (message list \<times> unit)" where
  "validate_data_quality py_int s =
     (let a = athletes s
      in case (if has_col a ''year''
               then (case year_range py_int (column a ''year'') of
                       Inl e \<Rightarrow> Inl e
                     | Inr (lo, hi) \<Rightarrow>
                         Inr (YearRange lo hi #
                              map (gap_line (unique (dropna (column a ''year'')))) [1940, 1944]))
               else Inr []) of
           Inl e \<Rightarrow> Inl e
         | Inr year_lines \<Rightarrow>
             Inr (Title # year_lines @
                  (if has_col a ''noc''
                   then map (code_line (unique (column a ''noc'')))
                          [''MIX'', ''URS'', ''GDR'', ''FRG'', ''EUN'']
                   else []) @
                  NullTitle #
                  map (null_line a) (filter (has_col a) [''noc'', ''medal'', ''sport'']),
                  ()))"

subsection \<open>The pipeline\<close>

definition run_full_standardization ::
  "(string \<Rightarrow> real option) \<Rightarrow> (string \<Rightarrow> int option) \<Rightarrow> standardizer \<Rightarrow> error + standardizer" where
  \<comment> \<open>the in-memory stages between \<^verbatim>\<open>load_data\<close> and \<^verbatim>\<open>save_standardized_data\<close>; an
      exception of a stage ends the run\<close>
  "run_full_standardization parse py_int s =
     (case handle_historical_anomalies s of
        Inl e \<Rightarrow> Inl e
      | Inr (s1, _) \<Rightarrow>
          (case standardize_country_codes s1 of
             Inl e \<Rightarrow> Inl e
           | Inr (s2, _) \<Rightarrow>
               (case create_active_athletes_subset parse s2 2020 of
                  Inl e \<Rightarrow> Inl e
                | Inr (s3, _) \<Rightarrow>
                    (case validate_data_quality py_int s3 of
                       Inl e \<Rightarrow> Inl e
                     | Inr _ \<Rightarrow> Inr s3))))"

section \<open>Analysis utilities\<close>

definition nunique :: "cell list \<Rightarrow> nat" where
  \<comment> \<open>\<^verbatim>\<open>Series.nunique()\<close>: the distinct values that are not missing\<close>
  "nunique cs = length (unique (dropna cs))"

definition cell_eq :: "cell \<Rightarrow> cell \<Rightarrow> bool" where
  \<comment> \<open>\<^verbatim>\<open>==\<close> on a column: the missing value equals nothing, itself included\<close>
  "cell_eq a b = (a = b \<and> a \<noteq> NaN)"

definition series_min_max :: "cell list \<Rightarrow> error + (cell \<times> cell)" where
  \<comment> \<open>\<^verbatim>\<open>Series.min()\<close> and \<^verbatim>\<open>Series.max()\<close>: missing values are skipped in a column of
      numbers, and the result is missing when nothing is left; a column with a text and
      a value that is not a text raises TypeError\<close>
  "series_min_max col =
     (if list_ex is_Str col then
        (if list_all is_Str col
         then (case col of [] \<Rightarrow> Inr (NaN, NaN) | v # vs \<Rightarrow> Inr (min_cells v vs, max_cells v vs))
         else Inl TypeError)
      else
        (case dropna col of
           [] \<Rightarrow> Inr (NaN, NaN)
         | v # vs \<Rightarrow> Inr (min_cells v vs, max_cells v vs)))"

record data_summary =
  n_athletes :: nat
  n_year_range :: "(int \<times> int \<times> nat) option"
  n_countries :: "nat option"
  n_sports :: "nat option"
  n_events :: "nat option"
  n_active :: "(nat \<times> real) option"

definition summary_years ::
  "(string \<Rightarrow> int option) \<Rightarrow> cell list \<Rightarrow> error + (int \<times> int \<times> nat)" where
  \<comment> \<open>lines 117-119\<close>
  "summary_years py_int col =
     (case series_min_max col of
        Inl e \<Rightarrow> Inl e
      | Inr (lo, hi) \<Rightarrow>
          (case int_of_cell py_int lo of
             Inl e \<Rightarrow> Inl e
           | Inr l \<Rightarrow>
               (case int_of_cell py_int hi of
                  Inl e \<Rightarrow> Inl e
                | Inr h \<Rightarrow> Inr (l, h, nunique col))))"

definition get_data_summary ::
  "(string \<Rightarrow> int option) \<Rightarrow> table \<Rightarrow> table option \<Rightarrow> error + data_summary" where
  "get_data_summary py_int athletes_df active_athletes_df =
     (case (if has_col athletes_df ''year''
            then map_sum id Some (summary_years py_int (column athletes_df ''year''))
            else Inr None) of
        Inl e \<Rightarrow> Inl e
      | Inr yr \<Rightarrow>
          (case (case active_athletes_df of
                   None \<Rightarrow> Inr None
                 | Some act \<Rightarrow>
                     map_sum id (\<lambda>pct. Some (length (rows act), pct))
                       (retention (length (rows act)) (length (rows athletes_df)))) of
             Inl e \<Rightarrow> Inl e
           | Inr active \<Rightarrow>
               Inr \<lparr>n_athletes = length (rows athletes_df),
                    n_year_range = yr,
                    n_countries =
                      (if has_col athletes_df ''noc''
                       then Some (nunique (column athletes_df ''noc'')) else None),
                    n_sports =
                      (if has_col athletes_df ''sport''
                       then Some (nunique (column athletes_df ''sport'')) else None),
                    n_events =
                      (if has_col athletes_df ''event''
                       then Some (nunique (column athletes_df ''event'')) else None),
                    n_active = active\<rparr>))"

subsection \<open>Feature tables\<close>

text \<open>
  A derived table is the list of its rows. The empty \<^verbatim>\<open>pd.DataFrame()\<close> is the empty
  list. pandas orders the groups of a \<^verbatim>\<open>groupby\<close> by their keys, level by level: numbers
  by value, before texts; texts by code point.
\<close>

record country_features_row =
  feat_noc :: cell
  athlete_count :: nat
  unique_sports :: nat
  unique_events :: nat
  medal_counts :: "(nat \<times> nat \<times> nat \<times> nat) option"

definition count_medal :: "table \<Rightarrow> string \<Rightarrow> nat" where
  \<comment> \<open>\<^verbatim>\<open>len(medals[medals['medal'] == name])\<close>\<close>
  "count_medal t name = length (rows (select (\<lambda>r. cell_eq (cell_of r ''medal'') (Str name)) t))"

definition country_feat :: "table \<Rightarrow> cell \<Rightarrow> country_features_row" where
  \<comment> \<open>lines 180-195, the body of the loop: the counts are gold, silver, bronze, total\<close>
  "country_feat active_df noc =
     (let country_data = select (\<lambda>r. cell_eq (cell_of r ''noc'') noc) active_df
      in \<lparr>feat_noc = noc,
          athlete_count = length (rows country_data),
          unique_sports =
            (if has_col country_data ''sport'' then nunique (column country_data ''sport'') else 0),
          unique_events =
            (if has_col country_data ''event'' then nunique (column country_data ''event'') else 0),
          medal_counts =
            (if has_col country_data ''medal''
             then (let medals = select (\<lambda>r. cell_of r ''medal'' \<noteq> NaN) country_data
                   in Some (count_medal medals ''Gold'', count_medal medals ''Silver'',
                            count_medal medals ''Bronze'', length (rows medals)))
             else None)\<rparr>)"

definition create_country_features :: "table \<Rightarrow> error + country_features_row list" where
  \<comment> \<open>\<^verbatim>\<open>set_index('noc')\<close> raises KeyError on the frame built from an empty list, which
      has no column\<close>
  "create_country_features active_df =
     (if \<not> has_col active_df ''noc'' then Inl (KeyError ''noc'')
      else
        let features = map (country_feat active_df) (unique (column active_df ''noc''))
        in if features = [] then Inl (KeyError ''noc'') else Inr features)"

definition key_cell_less :: "cell \<Rightarrow> cell \<Rightarrow> bool" where
  "key_cell_less a b =
     (case (a, b) of
        (Num x, Num y) \<Rightarrow> x < y
      | (Num x, Str y) \<Rightarrow> True
      | (Str x, Str y) \<Rightarrow> x < y
      | _ \<Rightarrow> False)"

fun key_less :: "cell list \<Rightarrow> cell list \<Rightarrow> bool" where
  "key_less (a # as) (b # bs) = (key_cell_less a b \<or> (a = b \<and> key_less as bs))"
| "key_less _ _ = False"

fun insert_key :: "cell list \<Rightarrow> cell list list \<Rightarrow> cell list list" where
  "insert_key k [] = [k]"
| "insert_key k (x # xs) = (if key_less x k then x # insert_key k xs else k # x # xs)"

definition group_keys :: "string list \<Rightarrow> table \<Rightarrow> cell list list" where
  \<comment> \<open>the keys of \<^verbatim>\<open>groupby(cols)\<close>, in order: a row with a missing key is in no group\<close>
  "group_keys cols t =
     foldr insert_key
       (unique (filter (\<lambda>k. NaN \<notin> set k) (map (\<lambda>r. map (cell_of r) cols) (rows t)))) []"

definition group_rows :: "string list \<Rightarrow> table \<Rightarrow> cell list \<Rightarrow> row list" where
  "group_rows cols t k = filter (\<lambda>r. map (cell_of r) cols = k) (rows t)"

definition create_medal_trends :: "table \<Rightarrow> error + (cell list \<times> nat) list" where
  \<comment> \<open>a row of the result is the key (year, noc, medal) and its count\<close>
  "create_medal_trends athletes_df =
     (if has_col athletes_df ''medal'' \<and> has_col athletes_df ''year'' then
        (if \<not> has_col athletes_df ''noc'' then Inl (KeyError ''noc'')
         else
           let medalists = select (\<lambda>r. cell_of r ''medal'' \<noteq> NaN) athletes_df;
               cols = [''year'', ''noc'', ''medal'']
           in Inr (map (\<lambda>k. (k, length (group_rows cols medalists k)))
                     (group_keys cols medalists)))
      else Inr [])"

definition create_sport_strength :: "table \<Rightarrow> error + (cell list \<times> nat \<times> nat) list" where
  \<comment> \<open>a row of the result is the key (noc, sport), its medals and its athletes.
      \<^verbatim>\<open>agg\<close> with a dictionary raises KeyError when a key of the dictionary is not a
      column of the frame; it names every such key, the model the first\<close>
  "create_sport_strength active_df =
     (if has_col active_df ''sport'' \<and> has_col active_df ''noc'' then
        (case find (\<lambda>c. \<not> has_col active_df c) [''athlete_id'', ''medal''] of
           Some c \<Rightarrow> Inl (KeyError c)
         | None \<Rightarrow>
             let cols = [''noc'', ''sport'']
             in Inr (map (\<lambda>k. (k,
                        length (filter (\<lambda>r. cell_of r ''medal'' \<noteq> NaN) (group_rows cols active_df k)),
                        length (filter (\<lambda>r. cell_of r ''athlete_id'' \<noteq> NaN) (group_rows cols active_df k))))
                     (group_keys cols active_df)))
      else Inr [])"

section \<open>Example tables\<close>

text \<open>Small tables on which the properties below are evaluated.\<close>

definition text_table :: "string list \<Rightarrow> row list \<Rightarrow> table" where
  "text_table cs rs = \<lparr>columns = cs, dtypes = (\<lambda>_. Object), rows = rs\<rparr>"

definition ex_raw :: table where
  "ex_raw = text_table [''edition'', ''noc'']
     [[''edition'' \<mapsto> Str ''1906 Summer Olympics'', ''noc'' \<mapsto> Str ''GRE''],
      [''edition'' \<mapsto> Str ''1988 Summer Olympics'', ''noc'' \<mapsto> Str ''URS''],
      [''edition'' \<mapsto> Str ''1896 Summer Olympics'', ''noc'' \<mapsto> Str ''MIX''],
      [''edition'' \<mapsto> Str ''1972 Summer Olympics'', ''noc'' \<mapsto> Str ''GDR'']]"

definition ex_state :: "table \<Rightarrow> standardizer" where
  "ex_state t = \<lparr>athletes = t, hosts = text_table [] [], medals = text_table [] [],
     programs = text_table [] [], active_athletes = None\<rparr>"

definition urs_row :: row where
  "urs_row = [''edition'' \<mapsto> Str ''1988 Summer Olympics'', ''noc'' \<mapsto> Str ''URS'']"

definition year_row :: "string \<Rightarrow> cell \<Rightarrow> row" where
  "year_row name y = [''name'' \<mapsto> Str name, ''year'' \<mapsto> y]"

definition ex_years :: table where
  "ex_years =
     \<lparr>columns = [''name'', ''year''],
      dtypes = (\<lambda>_. Object)(''year'' := Numeric),
      rows = [year_row ''A'' (Num 2016), year_row ''B'' (Num 2020), year_row ''C'' (Num 2024),
              year_row ''D'' NaN]\<rparr>"

definition ex_years_text :: table where
  "ex_years_text =
     \<lparr>columns = [''name'', ''year''],
      dtypes = (\<lambda>_. Object),
      rows = [year_row ''A'' (Str ''unknown''), year_row ''B'' (Str ''2021'')]\<rparr>"

definition ex_parse :: "string \<Rightarrow> real option" where
  "ex_parse x = (if x = ''2021'' then Some 2021 else None)"

definition ex_no_year :: table where
  "ex_no_year = text_table [''noc''] [[''noc'' \<mapsto> Str ''USA'']]"

definition ex_empty :: table where
  "ex_empty = text_table [''edition'', ''noc''] []"

definition ex_editions :: table where
  "ex_editions = text_table [''edition'']
     [[''edition'' \<mapsto> Str ''1996 Summer Games''],
      [''edition'' \<mapsto> Str ''Games of 1896 and 1900''],
      [''edition'' \<mapsto> Str ''Athina Games'']]"

definition ex_py_int :: "string \<Rightarrow> int option" where
  "ex_py_int x = (if x = ''1996'' then Some 1996 else None)"

definition ex_unclean :: table where
  "ex_unclean =
     \<lparr>columns = [''noc'', ''year'', ''medal''],
      dtypes = (\<lambda>_. Object)(''year'' := Numeric),
      rows = [[''noc'' \<mapsto> Str ''USA'', ''year'' \<mapsto> Num 2020, ''medal'' \<mapsto> Str ''Gold''],
              [''noc'' \<mapsto> Str ''URS'', ''year'' \<mapsto> Num 1940, ''medal'' \<mapsto> NaN]]\<rparr>"

definition ex_no_athlete_id :: table where
  "ex_no_athlete_id = text_table [''noc'', ''sport'', ''medal'']
     [[''noc'' \<mapsto> Str ''USA'', ''sport'' \<mapsto> Str ''Rowing'', ''medal'' \<mapsto> Str ''Gold'']]"

definition ex_missing_noc :: table where
  "ex_missing_noc = text_table [''noc'', ''sport'']
     [[''noc'' \<mapsto> NaN, ''sport'' \<mapsto> Str ''Rowing'']]"

definition ex_missing_edition :: table where
  "ex_missing_edition = text_table [''edition'', ''noc'']
     [[''edition'' \<mapsto> Str ''1896 Summer Olympics'', ''noc'' \<mapsto> Str ''GRE''],
      [''edition'' \<mapsto> NaN, ''noc'' \<mapsto> Str ''USA'']]"

definition ex_clean_missing :: table where
  "ex_clean_missing = text_table [''edition'', ''noc'']
     [[''edition'' \<mapsto> Str ''1988 Summer Olympics'', ''noc'' \<mapsto> Str ''RUS''],
      [''edition'' \<mapsto> NaN, ''noc'' \<mapsto> Str ''GER'']]"

definition ex_medals :: table where
  "ex_medals = text_table [''noc'', ''edition'']
     [[''noc'' \<mapsto> Str ''EUN'', ''edition'' \<mapsto> Str ''1992 Summer Olympics''],
      [''noc'' \<mapsto> Str ''MIX'', ''edition'' \<mapsto> Str ''1896 Summer Olympics'']]"

definition ex_loaded :: standardizer where
  "ex_loaded = \<lparr>athletes = ex_raw, hosts = text_table [] [], medals = ex_medals,
     programs = text_table [] [], active_athletes = None\<rparr>"

definition ex_arabic_indic :: string where
  "ex_arabic_indic =
     [CHR 0xD9, CHR 0xA2, CHR 0xD9, CHR 0xA0, CHR 0xD9, CHR 0xA2, CHR 0xD9, CHR 0xA0] @
     '' Summer Games''"

definition ex_1906_left :: table where
  "ex_1906_left =
     \<lparr>columns = [''edition'', ''noc'', ''year''],
      dtypes = (\<lambda>_. Object)(''year'' := Numeric),
      rows = [[''edition'' \<mapsto> Str ''1906 Summer Olympics'', ''noc'' \<mapsto> Str ''GRE'',
               ''year'' \<mapsto> Num 1906]]\<rparr>"

section \<open>Properties\<close>

subsection \<open>Selections and counts\<close>

lemma select_all: "\<forall>r\<in>set (rows t). p r \<Longrightarrow> select p t = t"
  by (simp add: select_def)

lemma rows_select: "rows (select p t) = filter p (rows t)"
  by (simp add: select_def)

lemma columns_select: "columns (select p t) = columns t"
  by (simp add: select_def)

lemma length_filter_split:
  "length xs - length (filter (\<lambda>x. \<not> p x) xs) = length (filter p xs)"
  using sum_length_filter_compl [of p xs] by simp

lemma delete_1906_fst:
  "fst (delete_1906 t) = select (\<lambda>r. cell_of r ''edition'' \<noteq> Str ''1906 Summer Olympics'') t"
  by (simp add: delete_1906_def Let_def)

lemma delete_1906_snd:
  "snd (delete_1906 t) =
     length (filter (\<lambda>r. cell_of r ''edition'' = Str ''1906 Summer Olympics'') (rows t))"
  using length_filter_split [of "rows t" "\<lambda>r. cell_of r ''edition'' = Str ''1906 Summer Olympics''"]
  by (simp add: delete_1906_def Let_def rows_select)

lemma delete_1906_clean:
  assumes "\<forall>r\<in>set (rows t). cell_of r ''edition'' \<noteq> Str ''1906 Summer Olympics''"
  shows "delete_1906 t = (t, 0)"
proof -
  have "filter (\<lambda>r. cell_of r ''edition'' = Str ''1906 Summer Olympics'') (rows t) = []"
    using assms by (simp add: filter_empty_conv)
  then have "snd (delete_1906 t) = 0"
    by (simp add: delete_1906_snd)
  moreover have "fst (delete_1906 t) = t"
    using assms by (simp add: delete_1906_fst select_all)
  ultimately show ?thesis
    by (simp add: prod_eq_iff)
qed

lemma set_unique: "set (unique xs) = set xs"
  by (induction xs rule: unique.induct) auto

subsection \<open>Anomaly removal\<close>

lemma delete_1906_exact:
  "rows (fst (delete_1906 t)) =
     filter (\<lambda>r. cell_of r ''edition'' \<noteq> Str ''1906 Summer Olympics'') (rows t) \<and>
   columns (fst (delete_1906 t)) = columns t \<and>
   length (rows (fst (delete_1906 t))) \<le> length (rows t) \<and>
   snd (delete_1906 t) = length (rows t) - length (rows (fst (delete_1906 t))) \<and>
   ((\<exists>r\<in>set (rows t). cell_of r ''edition'' = Str ''1906 Summer Olympics'') \<longrightarrow>
      1 \<le> snd (delete_1906 t)) \<and>
   ((\<forall>r\<in>set (rows t). cell_of r ''edition'' \<noteq> Str ''1906 Summer Olympics'') \<longrightarrow>
      delete_1906 t = (t, 0))"
proof -
  have count: "(\<exists>r\<in>set (rows t). cell_of r ''edition'' = Str ''1906 Summer Olympics'') \<longrightarrow>
      1 \<le> snd (delete_1906 t)"
  proof
    assume "\<exists>r\<in>set (rows t). cell_of r ''edition'' = Str ''1906 Summer Olympics''"
    then have "filter (\<lambda>r. cell_of r ''edition'' = Str ''1906 Summer Olympics'') (rows t) \<noteq> []"
      by (simp add: filter_empty_conv)
    then show "1 \<le> snd (delete_1906 t)"
      by (simp add: delete_1906_snd Suc_le_eq)
  qed
  have sub: "snd (delete_1906 t) = length (rows t) - length (rows (fst (delete_1906 t)))"
    by (simp add: delete_1906_def Let_def)
  show ?thesis
    using count sub delete_1906_clean [of t]
    by (simp add: delete_1906_fst rows_select columns_select)
qed

lemma handle_historical_anomalies_returns:
  assumes "has_col (athletes s) ''edition''"
    and "sortable (unique (column (fst (delete_1906 (athletes s))) ''edition''))"
  shows "handle_historical_anomalies s =
     Inr (s\<lparr>athletes := fst (delete_1906 (athletes s)),
             medals := (if has_col (medals s) ''edition''
                        then fst (delete_1906 (medals s)) else medals s)\<rparr>,
          snd (delete_1906 (athletes s)),
          (if has_col (medals s) ''edition'' then Some (snd (delete_1906 (medals s))) else None))"
  using assms
  by (simp add: handle_historical_anomalies_def Let_def case_prod_beta)

lemma handle_historical_anomalies_raises:
  assumes "has_col (athletes s) ''edition''"
    and "\<not> sortable (unique (column (fst (delete_1906 (athletes s))) ''edition''))"
  shows "handle_historical_anomalies s = Inl TypeError"
  using assms
  by (simp add: handle_historical_anomalies_def Let_def case_prod_beta)

text \<open>
  C2. On an athletes table whose edition column holds a text and a missing value, and
  no row of the 1906 edition, the filter of lines 53-55 removes nothing and counts 0,
  as the claim says. The method does not return that result: at line 66 it sorts the
  distinct editions, a text and a float, and raises TypeError.
\<close>

theorem anomaly_removal_type_error:
  "delete_1906 ex_missing_edition = (ex_missing_edition, 0) \<and>
   handle_historical_anomalies (ex_state ex_missing_edition) = Inl TypeError"
proof -
  have a: "delete_1906 ex_missing_edition = (ex_missing_edition, 0)"
    by (rule delete_1906_clean) (simp add: ex_missing_edition_def text_table_def cell_of_def)
  have c: "has_col (athletes (ex_state ex_missing_edition)) ''edition''"
    by (simp add: has_col_def ex_state_def ex_missing_edition_def text_table_def)
  have "column ex_missing_edition ''edition'' = [Str ''1896 Summer Olympics'', NaN]"
    by (simp add: column_def ex_missing_edition_def text_table_def cell_of_def)
  then have "\<not> sortable (unique (column (fst (delete_1906 (athletes (ex_state ex_missing_edition)))) ''edition''))"
    by (simp add: ex_state_def a sortable_def is_Str_def)
  with c have b: "handle_historical_anomalies (ex_state ex_missing_edition) = Inl TypeError"
    by (rule handle_historical_anomalies_raises)
  show ?thesis
    by (intro conjI a b)
qed

subsection \<open>Code consolidation\<close>

lemma cell_of_replaced:
  "cell_of (map_col c (replace_cell m) r) c = replace_cell m (cell_of r c)"
  by (simp add: cell_of_def map_col_def replace_cell_def split: option.splits)

lemma map_col_same:
  assumes "f (cell_of r c) = cell_of r c"
  shows "map_col c f r = r"
proof (cases "r c")
  case None
  then show ?thesis by (simp add: map_col_def)
next
  case (Some v)
  with assms have "f v = v" by (simp add: cell_of_def)
  with Some show ?thesis by (simp add: map_col_def map_upd_triv)
qed

lemma replace_cell_not_key:
  "c \<notin> Str ` fst ` set m \<Longrightarrow> replace_cell m c = c"
proof (cases c)
  case (Str x)
  assume "c \<notin> Str ` fst ` set m"
  with Str have "x \<notin> fst ` set m" by auto
  then have "map_of m x = None" by (simp add: map_of_eq_None_iff)
  with Str show ?thesis by (simp add: replace_cell_def)
qed (simp_all add: replace_cell_def)

lemma replace_cell_country:
  "replace_cell country_mapping c \<notin> Str ` {''MIX'', ''URS'', ''EUN'', ''GDR'', ''FRG''} \<or>
   replace_cell country_mapping c = Str ''MIX''"
  by (cases c) (auto simp: replace_cell_def country_mapping_def)

lemma consolidate_rows:
  "rows (fst (consolidate m s t)) =
     filter (\<lambda>r. cell_of r ''noc'' \<noteq> Str s) (map (map_col ''noc'' (replace_cell m)) (rows t))"
  by (simp add: consolidate_def Let_def select_def)

lemma consolidate_count:
  "snd (consolidate m s t) =
     length (filter (\<lambda>r. replace_cell m (cell_of r ''noc'') = Str s) (rows t))"
  by (simp add: consolidate_def Let_def select_def filter_map o_def cell_of_replaced)

lemma consolidate_columns: "columns (fst (consolidate m s t)) = columns t"
  by (simp add: consolidate_def Let_def select_def)

lemma consolidate_clean:
  assumes "\<forall>r\<in>set (rows t). cell_of r ''noc'' \<notin> Str ` fst ` set m"
    and "\<forall>r\<in>set (rows t). cell_of r ''noc'' \<noteq> Str s"
  shows "consolidate m s t = (t, 0)"
proof -
  have same: "map (map_col ''noc'' (replace_cell m)) (rows t) = rows t"
    using assms(1) by (simp add: map_idI map_col_same replace_cell_not_key)
  have "filter (\<lambda>r. cell_of r ''noc'' = Str s) (rows t) = []"
    using assms(2) by (simp add: filter_empty_conv)
  moreover have "filter (\<lambda>r. cell_of r ''noc'' \<noteq> Str s) (rows t) = rows t"
    using assms(2) by simp
  ultimately show ?thesis
    by (simp add: consolidate_def Let_def select_def same)
qed


lemma cell_of_map_col_other:
  "c' \<noteq> c \<Longrightarrow> cell_of (map_col c f r) c' = cell_of r c'"
  by (simp add: cell_of_def map_col_def split: option.splits)

lemma replace_cell_country_MIX:
  "(replace_cell country_mapping c = Str ''MIX'') = (c = Str ''MIX'')"
  by (cases c) (auto simp: replace_cell_def country_mapping_def)

lemma country_keys:
  "Str ` fst ` set country_mapping = Str ` {''URS'', ''EUN'', ''GDR'', ''FRG''}"
  by (simp add: country_mapping_def)

lemma consolidate_country_rows:
  "rows (fst (consolidate country_mapping ''MIX'' t)) =
     map (map_col ''noc'' (replace_cell country_mapping))
       (filter (\<lambda>r. cell_of r ''noc'' \<noteq> Str ''MIX'') (rows t))"
  by (simp add: consolidate_rows filter_map o_def cell_of_replaced replace_cell_country_MIX)

lemma consolidate_country_codes:
  assumes "r \<in> set (rows (fst (consolidate country_mapping ''MIX'' t)))"
  shows "cell_of r ''noc'' \<notin> Str ` {''MIX'', ''URS'', ''EUN'', ''GDR'', ''FRG''}"
proof -
  from assms obtain r0 where r: "r = map_col ''noc'' (replace_cell country_mapping) r0"
    and keep: "cell_of r ''noc'' \<noteq> Str ''MIX''"
    by (auto simp: consolidate_rows)
  have "cell_of r ''noc'' = replace_cell country_mapping (cell_of r0 ''noc'')"
    by (simp add: r cell_of_replaced)
  with keep replace_cell_country [of "cell_of r0 ''noc''"] show ?thesis
    by simp
qed

lemma standardize_noc_has_col:
  "has_col t ''noc'' \<Longrightarrow>
   standardize_noc t =
     (fst (consolidate country_mapping ''MIX'' t), Some (snd (consolidate country_mapping ''MIX'' t)))"
  by (simp add: standardize_noc_def split: prod.splits)

lemma consolidate_country_count:
  "snd (consolidate country_mapping ''MIX'' t) =
     length (filter (\<lambda>r. cell_of r ''noc'' = Str ''MIX'') (rows t))"
  by (simp add: consolidate_count replace_cell_country_MIX)

lemma standardize_country_codes_returns:
  assumes "has_col (athletes st) ''noc''"
  shows "standardize_country_codes st =
     Inr (st\<lparr>athletes := fst (consolidate country_mapping ''MIX'' (athletes st)),
              medals := (if has_col (medals st) ''noc''
                         then fst (consolidate country_mapping ''MIX'' (medals st))
                         else medals st)\<rparr>,
          Some (snd (consolidate country_mapping ''MIX'' (athletes st))))"
proof -
  have a: "standardize_noc (athletes st) =
     (fst (consolidate country_mapping ''MIX'' (athletes st)),
      Some (snd (consolidate country_mapping ''MIX'' (athletes st))))"
    using assms by (rule standardize_noc_has_col)
  have m: "fst (standardize_noc (medals st)) =
     (if has_col (medals st) ''noc''
      then fst (consolidate country_mapping ''MIX'' (medals st)) else medals st)"
    by (simp add: standardize_noc_def split: prod.splits)
  have c: "has_col (fst (consolidate country_mapping ''MIX'' (athletes st))) ''noc''"
    using assms by (simp add: has_col_def consolidate_columns)
  show ?thesis
    by (simp add: standardize_country_codes_def a m c)
qed

lemma standardize_country_codes_Inr:
  assumes "standardize_country_codes st = Inr (st', cnt)"
  shows "has_col (athletes st) ''noc''"
proof (rule ccontr)
  assume "\<not> has_col (athletes st) ''noc''"
  then have "standardize_country_codes st = Inl (KeyError ''noc'')"
    by (simp add: standardize_country_codes_def standardize_noc_def)
  with assms show False
    by simp
qed

text \<open>
  C1. Code consolidation substitutes first and drops second.
  \<^verbatim>\<open>standardize_country_codes\<close> on a state whose athletes table has a noc column returns,
  with the athletes table consolidated, the medals table consolidated when it has a noc
  column and untouched otherwise, and the count of the athletes' \<^verbatim>\<open>MIX\<close> rows. Whenever
  it returns, no athletes row (and no row of a medals table with a noc column) carries
  \<^verbatim>\<open>MIX\<close> or a key of the dictionary, and the table is the input without its \<^verbatim>\<open>MIX\<close>
  rows, each remaining row with its code replaced (\<^verbatim>\<open>URS\<close> and \<^verbatim>\<open>EUN\<close> by \<^verbatim>\<open>RUS\<close>, \<^verbatim>\<open>GDR\<close>
  and \<^verbatim>\<open>FRG\<close> by \<^verbatim>\<open>GER\<close>) and its other cells untouched. On a table with a noc column
  the guarded block is the consolidation with the program's dictionary and the code
  \<^verbatim>\<open>MIX\<close>. For any dictionary and any dropped code, the rows are filtered after the
  substitution, so a row whose code is replaced by the dropped code is dropped too, and
  the count is the number of rows whose replaced code is the dropped code.
\<close>

theorem consolidation_order:
  "(has_col (athletes st) ''noc'' \<longrightarrow>
      standardize_country_codes st =
        Inr (st\<lparr>athletes := fst (consolidate country_mapping ''MIX'' (athletes st)),
                 medals := (if has_col (medals st) ''noc''
                            then fst (consolidate country_mapping ''MIX'' (medals st))
                            else medals st)\<rparr>,
             Some (snd (consolidate country_mapping ''MIX'' (athletes st))))) \<and>
   (standardize_country_codes st = Inr (st', cnt) \<longrightarrow>
      (\<forall>r\<in>set (rows (athletes st')).
         cell_of r ''noc'' \<notin> Str ` {''MIX'', ''URS'', ''EUN'', ''GDR'', ''FRG''}) \<and>
      rows (athletes st') =
        map (map_col ''noc'' (replace_cell country_mapping))
          (filter (\<lambda>r. cell_of r ''noc'' \<noteq> Str ''MIX'') (rows (athletes st))) \<and>
      cnt = Some (length (filter (\<lambda>r. cell_of r ''noc'' = Str ''MIX'') (rows (athletes st)))) \<and>
      (has_col (medals st) ''noc'' \<longrightarrow>
         (\<forall>r\<in>set (rows (medals st')).
            cell_of r ''noc'' \<notin> Str ` {''MIX'', ''URS'', ''EUN'', ''GDR'', ''FRG''}) \<and>
         rows (medals st') =
           map (map_col ''noc'' (replace_cell country_mapping))
             (filter (\<lambda>r. cell_of r ''noc'' \<noteq> Str ''MIX'') (rows (medals st)))) \<and>
      (\<not> has_col (medals st) ''noc'' \<longrightarrow> medals st' = medals st)) \<and>
   (has_col t ''noc'' \<longrightarrow>
      standardize_noc t =
        (fst (consolidate country_mapping ''MIX'' t),
         Some (snd (consolidate country_mapping ''MIX'' t)))) \<and>
   (\<forall>r\<in>set (rows (fst (consolidate country_mapping ''MIX'' t))).
      cell_of r ''noc'' \<notin> Str ` {''MIX'', ''URS'', ''EUN'', ''GDR'', ''FRG''}) \<and>
   rows (fst (consolidate country_mapping ''MIX'' t)) =
     map (map_col ''noc'' (replace_cell country_mapping))
       (filter (\<lambda>r. cell_of r ''noc'' \<noteq> Str ''MIX'') (rows t)) \<and>
   cell_of (map_col ''noc'' (replace_cell country_mapping) r) ''noc'' =
     replace_cell country_mapping (cell_of r ''noc'') \<and>
   (c \<noteq> ''noc'' \<longrightarrow>
      cell_of (map_col ''noc'' (replace_cell country_mapping) r) c = cell_of r c) \<and>
   replace_cell country_mapping (Str ''URS'') = Str ''RUS'' \<and>
   replace_cell country_mapping (Str ''EUN'') = Str ''RUS'' \<and>
   replace_cell country_mapping (Str ''GDR'') = Str ''GER'' \<and>
   replace_cell country_mapping (Str ''FRG'') = Str ''GER'' \<and>
   rows (fst (consolidate m s t)) =
     filter (\<lambda>r. cell_of r ''noc'' \<noteq> Str s)
       (map (map_col ''noc'' (replace_cell m)) (rows t)) \<and>
   (\<forall>r\<in>set (rows (fst (consolidate m s t))). cell_of r ''noc'' \<noteq> Str s) \<and>
   (replace_cell m (cell_of r ''noc'') = Str s \<longrightarrow>
      map_col ''noc'' (replace_cell m) r \<notin> set (rows (fst (consolidate m s t)))) \<and>
   snd (consolidate m s t) =
     length (filter (\<lambda>r. replace_cell m (cell_of r ''noc'') = Str s) (rows t))"
proof -
  have codes: "replace_cell country_mapping (Str ''URS'') = Str ''RUS''"
    "replace_cell country_mapping (Str ''EUN'') = Str ''RUS''"
    "replace_cell country_mapping (Str ''GDR'') = Str ''GER''"
    "replace_cell country_mapping (Str ''FRG'') = Str ''GER''"
    by (simp_all add: replace_cell_def country_mapping_def)
  have dropped: "\<forall>r\<in>set (rows (fst (consolidate m s t))). cell_of r ''noc'' \<noteq> Str s"
    by (simp add: consolidate_rows)
  have remapped: "replace_cell m (cell_of r ''noc'') = Str s \<longrightarrow>
      map_col ''noc'' (replace_cell m) r \<notin> set (rows (fst (consolidate m s t)))"
    by (simp add: consolidate_rows cell_of_replaced)
  have keys: "\<forall>r\<in>set (rows (fst (consolidate country_mapping ''MIX'' u))).
      cell_of r ''noc'' \<notin> Str ` {''MIX'', ''URS'', ''EUN'', ''GDR'', ''FRG''}" for u
    using consolidate_country_codes [of _ u] by (intro ballI)
  have other: "c \<noteq> ''noc'' \<longrightarrow>
      cell_of (map_col ''noc'' (replace_cell country_mapping) r) c = cell_of r c"
    by (simp add: cell_of_map_col_other)
  have guarded: "has_col t ''noc'' \<longrightarrow>
      standardize_noc t =
        (fst (consolidate country_mapping ''MIX'' t),
         Some (snd (consolidate country_mapping ''MIX'' t)))"
    by (simp add: standardize_noc_has_col)
  have returns: "has_col (athletes st) ''noc'' \<longrightarrow>
      standardize_country_codes st =
        Inr (st\<lparr>athletes := fst (consolidate country_mapping ''MIX'' (athletes st)),
                 medals := (if has_col (medals st) ''noc''
                            then fst (consolidate country_mapping ''MIX'' (medals st))
                            else medals st)\<rparr>,
             Some (snd (consolidate country_mapping ''MIX'' (athletes st))))"
    by (simp add: standardize_country_codes_returns)
  have returned: "standardize_country_codes st = Inr (st', cnt) \<longrightarrow>
      (\<forall>r\<in>set (rows (athletes st')).
         cell_of r ''noc'' \<notin> Str ` {''MIX'', ''URS'', ''EUN'', ''GDR'', ''FRG''}) \<and>
      rows (athletes st') =
        map (map_col ''noc'' (replace_cell country_mapping))
          (filter (\<lambda>r. cell_of r ''noc'' \<noteq> Str ''MIX'') (rows (athletes st))) \<and>
      cnt = Some (length (filter (\<lambda>r. cell_of r ''noc'' = Str ''MIX'') (rows (athletes st)))) \<and>
      (has_col (medals st) ''noc'' \<longrightarrow>
         (\<forall>r\<in>set (rows (medals st')).
            cell_of r ''noc'' \<notin> Str ` {''MIX'', ''URS'', ''EUN'', ''GDR'', ''FRG''}) \<and>
         rows (medals st') =
           map (map_col ''noc'' (replace_cell country_mapping))
             (filter (\<lambda>r. cell_of r ''noc'' \<noteq> Str ''MIX'') (rows (medals st)))) \<and>
      (\<not> has_col (medals st) ''noc'' \<longrightarrow> medals st' = medals st)"
  proof
    assume run: "standardize_country_codes st = Inr (st', cnt)"
    then have "has_col (athletes st) ''noc''"
      by (rule standardize_country_codes_Inr)
    from standardize_country_codes_returns [OF this] run
    have a: "athletes st' = fst (consolidate country_mapping ''MIX'' (athletes st))"
      and mm: "medals st' = (if has_col (medals st) ''noc''
                            then fst (consolidate country_mapping ''MIX'' (medals st))
                            else medals st)"
      and k: "cnt = Some (snd (consolidate country_mapping ''MIX'' (athletes st)))"
      by auto
    have m1: "has_col (medals st) ''noc'' \<longrightarrow>
         (\<forall>r\<in>set (rows (medals st')).
            cell_of r ''noc'' \<notin> Str ` {''MIX'', ''URS'', ''EUN'', ''GDR'', ''FRG''}) \<and>
         rows (medals st') =
           map (map_col ''noc'' (replace_cell country_mapping))
             (filter (\<lambda>r. cell_of r ''noc'' \<noteq> Str ''MIX'') (rows (medals st)))"
      using keys [of "medals st"] consolidate_country_rows [of "medals st"] by (simp add: mm)
    have m2: "\<not> has_col (medals st) ''noc'' \<longrightarrow> medals st' = medals st"
      by (simp add: mm)
    have a1: "\<forall>r\<in>set (rows (athletes st')).
         cell_of r ''noc'' \<notin> Str ` {''MIX'', ''URS'', ''EUN'', ''GDR'', ''FRG''}"
      unfolding a by (rule keys)
    have a2: "rows (athletes st') =
        map (map_col ''noc'' (replace_cell country_mapping))
          (filter (\<lambda>r. cell_of r ''noc'' \<noteq> Str ''MIX'') (rows (athletes st)))"
      unfolding a by (rule consolidate_country_rows)
    have a3: "cnt = Some (length (filter (\<lambda>r. cell_of r ''noc'' = Str ''MIX'') (rows (athletes st))))"
      by (simp add: k consolidate_country_count)
    show "(\<forall>r\<in>set (rows (athletes st')).
         cell_of r ''noc'' \<notin> Str ` {''MIX'', ''URS'', ''EUN'', ''GDR'', ''FRG''}) \<and>
      rows (athletes st') =
        map (map_col ''noc'' (replace_cell country_mapping))
          (filter (\<lambda>r. cell_of r ''noc'' \<noteq> Str ''MIX'') (rows (athletes st))) \<and>
      cnt = Some (length (filter (\<lambda>r. cell_of r ''noc'' = Str ''MIX'') (rows (athletes st)))) \<and>
      (has_col (medals st) ''noc'' \<longrightarrow>
         (\<forall>r\<in>set (rows (medals st')).
            cell_of r ''noc'' \<notin> Str ` {''MIX'', ''URS'', ''EUN'', ''GDR'', ''FRG''}) \<and>
         rows (medals st') =
           map (map_col ''noc'' (replace_cell country_mapping))
             (filter (\<lambda>r. cell_of r ''noc'' \<noteq> Str ''MIX'') (rows (medals st)))) \<and>
      (\<not> has_col (medals st) ''noc'' \<longrightarrow> medals st' = medals st)"
      by (intro conjI a1 a2 a3 m1 m2)
  qed
  show ?thesis
    by (intro conjI returns returned guarded keys consolidate_country_rows cell_of_replaced other
        codes consolidate_rows dropped remapped consolidate_count)
qed

theorem consolidation_order_witness:
  "(\<exists>st'. standardize_country_codes ex_loaded = Inr (st', Some 1) \<and>
      map (\<lambda>r. cell_of r ''noc'') (rows (athletes st')) = [Str ''GRE'', Str ''RUS'', Str ''GER''] \<and>
      map (\<lambda>r. cell_of r ''noc'') (rows (medals st')) = [Str ''RUS'']) \<and>
   standardize_noc ex_raw = (fst (consolidate country_mapping ''MIX'' ex_raw), Some 1) \<and>
   map (\<lambda>r. cell_of r ''noc'') (rows (fst (consolidate country_mapping ''MIX'' ex_raw))) =
     [Str ''GRE'', Str ''RUS'', Str ''GER''] \<and>
   cell_of (map_col ''noc'' (replace_cell country_mapping) urs_row) ''noc'' = Str ''RUS'' \<and>
   cell_of (map_col ''noc'' (replace_cell country_mapping) urs_row) ''edition'' =
     Str ''1988 Summer Olympics'' \<and>
   map_col ''noc'' (replace_cell [(''URS'', ''MIX'')]) urs_row
     \<notin> set (rows (fst (consolidate [(''URS'', ''MIX'')] ''MIX'' ex_raw))) \<and>
   map (\<lambda>r. cell_of r ''noc'') (rows (fst (consolidate [(''URS'', ''MIX'')] ''MIX'' ex_raw))) =
     [Str ''GRE'', Str ''GDR''] \<and>
   snd (consolidate [(''URS'', ''MIX'')] ''MIX'' ex_raw) = 2"
proof -
  let ?st' = "ex_loaded\<lparr>athletes := fst (consolidate country_mapping ''MIX'' (athletes ex_loaded)),
      medals := (if has_col (medals ex_loaded) ''noc''
                 then fst (consolidate country_mapping ''MIX'' (medals ex_loaded))
                 else medals ex_loaded)\<rparr>"
  note T = consolidation_order
    [of ex_loaded ?st' "Some (snd (consolidate country_mapping ''MIX'' (athletes ex_loaded)))"
      ex_raw urs_row "''edition''" "[(''URS'', ''MIX'')]" "''MIX''"]
  have la: "athletes ex_loaded = ex_raw" and lm: "medals ex_loaded = ex_medals"
    by (simp_all add: ex_loaded_def)
  have mcol: "has_col (medals ex_loaded) ''noc''"
    by (simp add: lm has_col_def ex_medals_def text_table_def)
  have acol: "has_col (athletes ex_loaded) ''noc''"
    by (simp add: la has_col_def ex_raw_def text_table_def)
  from T acol have run: "standardize_country_codes ex_loaded =
      Inr (?st', Some (snd (consolidate country_mapping ''MIX'' (athletes ex_loaded))))"
    by blast
  from T run have "rows (athletes ?st') =
        map (map_col ''noc'' (replace_cell country_mapping))
          (filter (\<lambda>r. cell_of r ''noc'' \<noteq> Str ''MIX'') (rows (athletes ex_loaded)))"
    by blast
  then have m1: "map (\<lambda>r. cell_of r ''noc'') (rows (athletes ?st')) =
      [Str ''GRE'', Str ''RUS'', Str ''GER'']"
    unfolding la
    by (simp add: ex_raw_def text_table_def map_col_def cell_of_def replace_cell_def
        country_mapping_def)
  from T run mcol have "rows (medals ?st') =
        map (map_col ''noc'' (replace_cell country_mapping))
          (filter (\<lambda>r. cell_of r ''noc'' \<noteq> Str ''MIX'') (rows (medals ex_loaded)))"
    by blast
  then have m2: "map (\<lambda>r. cell_of r ''noc'') (rows (medals ?st')) = [Str ''RUS'']"
    unfolding lm
    by (simp add: ex_medals_def text_table_def map_col_def cell_of_def replace_cell_def
        country_mapping_def)
  from T run have "Some (snd (consolidate country_mapping ''MIX'' (athletes ex_loaded))) =
      Some (length (filter (\<lambda>r. cell_of r ''noc'' = Str ''MIX'') (rows (athletes ex_loaded))))"
    by blast
  then have m3: "snd (consolidate country_mapping ''MIX'' (athletes ex_loaded)) = 1"
    unfolding la by (simp add: ex_raw_def text_table_def cell_of_def)
  have c0: "\<exists>st'. standardize_country_codes ex_loaded = Inr (st', Some 1) \<and>
      map (\<lambda>r. cell_of r ''noc'') (rows (athletes st')) = [Str ''GRE'', Str ''RUS'', Str ''GER''] \<and>
      map (\<lambda>r. cell_of r ''noc'') (rows (medals st')) = [Str ''RUS'']"
    using run m1 m2 m3 by (intro exI [of _ ?st']) simp
  have col: "has_col ex_raw ''noc''"
    by (simp add: has_col_def ex_raw_def text_table_def)
  have count: "snd (consolidate country_mapping ''MIX'' ex_raw) = 1"
    by (simp add: consolidate_def select_def ex_raw_def text_table_def map_col_def cell_of_def
        replace_cell_def country_mapping_def Let_def)
  have c1: "standardize_noc ex_raw = (fst (consolidate country_mapping ''MIX'' ex_raw), Some 1)"
    using T col count by simp
  have "rows (fst (consolidate country_mapping ''MIX'' ex_raw)) =
     map (map_col ''noc'' (replace_cell country_mapping))
       (filter (\<lambda>r. cell_of r ''noc'' \<noteq> Str ''MIX'') (rows ex_raw))"
    using T by blast
  then have c2: "map (\<lambda>r. cell_of r ''noc'') (rows (fst (consolidate country_mapping ''MIX'' ex_raw))) =
     [Str ''GRE'', Str ''RUS'', Str ''GER'']"
    by (simp add: ex_raw_def text_table_def map_col_def cell_of_def replace_cell_def
        country_mapping_def)
  have "cell_of (map_col ''noc'' (replace_cell country_mapping) urs_row) ''noc'' =
     replace_cell country_mapping (cell_of urs_row ''noc'')"
    using T by blast
  then have c3: "cell_of (map_col ''noc'' (replace_cell country_mapping) urs_row) ''noc'' = Str ''RUS''"
    by (simp add: urs_row_def cell_of_def replace_cell_def country_mapping_def)
  have "''edition'' \<noteq> ''noc''"
    by simp
  then have "cell_of (map_col ''noc'' (replace_cell country_mapping) urs_row) ''edition'' =
     cell_of urs_row ''edition''"
    using T by blast
  then have c4: "cell_of (map_col ''noc'' (replace_cell country_mapping) urs_row) ''edition'' =
     Str ''1988 Summer Olympics''"
    by (simp add: urs_row_def cell_of_def)
  have "replace_cell [(''URS'', ''MIX'')] (cell_of urs_row ''noc'') = Str ''MIX''"
    by (simp add: urs_row_def cell_of_def replace_cell_def)
  then have c5: "map_col ''noc'' (replace_cell [(''URS'', ''MIX'')]) urs_row
     \<notin> set (rows (fst (consolidate [(''URS'', ''MIX'')] ''MIX'' ex_raw)))"
    using T by blast
  have "rows (fst (consolidate [(''URS'', ''MIX'')] ''MIX'' ex_raw)) =
     filter (\<lambda>r. cell_of r ''noc'' \<noteq> Str ''MIX'')
       (map (map_col ''noc'' (replace_cell [(''URS'', ''MIX'')])) (rows ex_raw))"
    using T by blast
  then have c6: "map (\<lambda>r. cell_of r ''noc'') (rows (fst (consolidate [(''URS'', ''MIX'')] ''MIX'' ex_raw))) =
     [Str ''GRE'', Str ''GDR'']"
    by (simp add: ex_raw_def text_table_def map_col_def cell_of_def replace_cell_def)
  have "snd (consolidate [(''URS'', ''MIX'')] ''MIX'' ex_raw) =
     length (filter (\<lambda>r. replace_cell [(''URS'', ''MIX'')] (cell_of r ''noc'') = Str ''MIX'') (rows ex_raw))"
    using T by blast
  then have c7: "snd (consolidate [(''URS'', ''MIX'')] ''MIX'' ex_raw) = 2"
    by (simp add: ex_raw_def text_table_def cell_of_def replace_cell_def)
  show ?thesis
    by (intro conjI c0 c1 c2 c3 c4 c5 c6 c7)
qed

lemma steps_idempotent:
  "((\<forall>r\<in>set (rows t). cell_of r ''edition'' \<noteq> Str ''1906 Summer Olympics'') \<longrightarrow>
      delete_1906 t = (t, 0)) \<and>
   ((\<forall>r\<in>set (rows t).
       cell_of r ''noc'' \<notin> Str ` {''MIX'', ''URS'', ''EUN'', ''GDR'', ''FRG''}) \<longrightarrow>
      consolidate country_mapping ''MIX'' t = (t, 0)) \<and>
   delete_1906 (fst (delete_1906 t)) = (fst (delete_1906 t), 0) \<and>
   consolidate country_mapping ''MIX'' (fst (consolidate country_mapping ''MIX'' t)) =
     (fst (consolidate country_mapping ''MIX'' t), 0)"
proof -
  have codes: "consolidate country_mapping ''MIX'' u = (u, 0)"
    if "\<forall>r\<in>set (rows u).
       cell_of r ''noc'' \<notin> Str ` {''MIX'', ''URS'', ''EUN'', ''GDR'', ''FRG''}" for u
  proof (rule consolidate_clean)
    show "\<forall>r\<in>set (rows u). cell_of r ''noc'' \<notin> Str ` fst ` set country_mapping"
      using that by (auto simp: country_keys)
    show "\<forall>r\<in>set (rows u). cell_of r ''noc'' \<noteq> Str ''MIX''"
      using that by auto
  qed
  have again: "delete_1906 (fst (delete_1906 t)) = (fst (delete_1906 t), 0)"
    by (rule delete_1906_clean) (simp add: delete_1906_fst rows_select)
  have again': "consolidate country_mapping ''MIX'' (fst (consolidate country_mapping ''MIX'' t)) =
     (fst (consolidate country_mapping ''MIX'' t), 0)"
    using consolidate_country_codes [of _ t] by (intro codes ballI)
  show ?thesis
    using codes [of t] again again' delete_1906_clean [of t] by blast
qed

text \<open>
  C8. On an athletes table that is already clean (no row of the 1906 edition, no
  \<^verbatim>\<open>MIX\<close> code, no key of the dictionary) and whose edition column holds a text and a
  missing value, both steps return the table as it is with the count 0, and
  \<^verbatim>\<open>standardize_country_codes\<close> returns the state as it is with the count 0 as the claim
  says; \<^verbatim>\<open>handle_historical_anomalies\<close> does not: it raises TypeError at line 66.
\<close>

theorem idempotence_type_error:
  "delete_1906 ex_clean_missing = (ex_clean_missing, 0) \<and>
   consolidate country_mapping ''MIX'' ex_clean_missing = (ex_clean_missing, 0) \<and>
   standardize_country_codes (ex_state ex_clean_missing) =
     Inr (ex_state ex_clean_missing, Some 0) \<and>
   handle_historical_anomalies (ex_state ex_clean_missing) = Inl TypeError"
proof -
  have a: "delete_1906 ex_clean_missing = (ex_clean_missing, 0)"
    by (rule delete_1906_clean) (simp add: ex_clean_missing_def text_table_def cell_of_def)
  have b: "consolidate country_mapping ''MIX'' ex_clean_missing = (ex_clean_missing, 0)"
    by (rule consolidate_clean)
      (simp_all add: ex_clean_missing_def text_table_def cell_of_def country_mapping_def)
  have col: "has_col (athletes (ex_state ex_clean_missing)) ''noc''"
    "has_col (athletes (ex_state ex_clean_missing)) ''edition''"
    "\<not> has_col (medals (ex_state ex_clean_missing)) ''noc''"
    by (simp_all add: has_col_def ex_state_def ex_clean_missing_def text_table_def)
  have ath: "athletes (ex_state ex_clean_missing) = ex_clean_missing"
    by (simp add: ex_state_def)
  have c: "standardize_country_codes (ex_state ex_clean_missing) =
     Inr (ex_state ex_clean_missing, Some 0)"
    using standardize_country_codes_returns [OF col(1)] col(3)
    by (simp add: ath b)
  have "column ex_clean_missing ''edition'' = [Str ''1988 Summer Olympics'', NaN]"
    by (simp add: column_def ex_clean_missing_def text_table_def cell_of_def)
  then have "\<not> sortable (unique (column (fst (delete_1906 (athletes (ex_state ex_clean_missing)))) ''edition''))"
    by (simp add: ath a sortable_def is_Str_def)
  with col(2) have d: "handle_historical_anomalies (ex_state ex_clean_missing) = Inl TypeError"
    by (rule handle_historical_anomalies_raises)
  show ?thesis
    by (intro conjI a b c d)
qed

subsection \<open>The active subset\<close>

lemma year_ge_iff: "year_ge cutoff c = (\<exists>y. c = Num y \<and> cutoff \<le> y)"
  by (cases c) (simp_all add: year_ge_def)

lemma cell_of_upd: "cell_of (r(c \<mapsto> v)) c' = (if c' = c then v else cell_of r c')"
  by (simp add: cell_of_def)

lemma rows_set_column: "rows (set_column c d f t) = map (\<lambda>r. r(c \<mapsto> f r)) (rows t)"
  by (simp add: set_column_def)

lemma resolve_year_col_rows:
  "resolve_year_col t = Inr (t', yc) \<Longrightarrow> length (rows t') = length (rows t)"
  by (auto simp: resolve_year_col_def rows_set_column split: option.splits if_splits)

lemma resolve_year_col_ValueError:
  "(resolve_year_col t = Inl (ValueError msg)) =
     (msg = ''Cannot find year information in athletes dataset'' \<and>
      \<not> has_col t ''year'' \<and> \<not> has_col t ''edition_year'' \<and> \<not> has_col t ''games_year'' \<and>
      \<not> has_col t ''edition'')"
  by (auto simp: resolve_year_col_def find_year_col_def split: option.splits if_splits)

lemma create_active_Inl:
  "(create_active_athletes_subset parse s cutoff = Inl e) =
     (resolve_year_col (athletes s) = Inl e \<or>
      (e = ZeroDivisionError \<and> rows (athletes s) = [] \<and>
       (\<exists>t yc. resolve_year_col (athletes s) = Inr (t, yc))))"
proof (cases "resolve_year_col (athletes s)")
  case (Inl e')
  then show ?thesis
    by (simp add: create_active_athletes_subset_def)
next
  case (Inr p)
  obtain t yc where p: "p = (t, yc)"
    by (cases p)
  have "length (rows t) = length (rows (athletes s))"
    using Inr p by (simp add: resolve_year_col_rows)
  then show ?thesis
    using Inr p
    by (auto simp: create_active_athletes_subset_def retention_def Let_def rows_set_column)
qed

lemma create_active_Inr:
  assumes "create_active_athletes_subset parse s cutoff = Inr (s', rep)"
  shows "\<exists>t yc a.
      resolve_year_col (athletes s) = Inr (t, yc) \<and>
      athletes s' = set_column yc Numeric (\<lambda>r. to_numeric parse (cell_of r yc)) t \<and>
      active_athletes s' = Some a \<and>
      a = select (\<lambda>r. year_ge cutoff (cell_of r yc)) (athletes s') \<and>
      total_athletes rep = length (rows (athletes s')) \<and>
      active_count rep = length (rows a) \<and>
      inactive_count rep = total_athletes rep - active_count rep \<and>
      0 < total_athletes rep \<and>
      retention_rate rep = real (active_count rep) / real (total_athletes rep) * 100"
  using assms
  by (auto simp: create_active_athletes_subset_def retention_def Let_def
      split: sum.splits prod.splits if_splits)


lemma ex_years_subset:
  "create_active_athletes_subset parse (ex_state ex_years) 2020 =
     Inr ((ex_state ex_years)
            \<lparr>athletes := ex_years,
             active_athletes := Some (ex_years\<lparr>rows := [year_row ''B'' (Num 2020), year_row ''C'' (Num 2024)]\<rparr>)\<rparr>,
          \<lparr>total_athletes = 4, active_count = 2, inactive_count = 2, retention_rate = 50\<rparr>)"
proof -
  have r: "resolve_year_col ex_years = Inr (ex_years, ''year'')"
    by (simp add: resolve_year_col_def find_year_col_def has_col_def ex_years_def)
  have u: "(year_row n y)(''year'' \<mapsto> to_numeric parse (cell_of (year_row n y) ''year'')) =
      year_row n (to_numeric parse y)" for n y
    by (simp add: year_row_def cell_of_def)
  have a: "set_column ''year'' Numeric (\<lambda>r. to_numeric parse (cell_of r ''year'')) ex_years = ex_years"
  proof -
    have n: "to_numeric parse (Num z) = Num z" "to_numeric parse NaN = NaN" for z
      by (simp_all add: to_numeric_def)
    show ?thesis
      by (simp add: set_column_def ex_years_def u n)
  qed
  have c: "cell_of (year_row n y) ''year'' = y" for n y
    by (simp add: year_row_def cell_of_def)
  have f: "select (\<lambda>r. year_ge 2020 (cell_of r ''year'')) ex_years =
      ex_years\<lparr>rows := [year_row ''B'' (Num 2020), year_row ''C'' (Num 2024)]\<rparr>"
    by (simp add: select_def ex_years_def c year_ge_def)
  show ?thesis
    by (simp add: create_active_athletes_subset_def ex_state_def r a f retention_def Let_def)
      (simp add: ex_years_def)
qed

text \<open>
  C3. When the active subset is derived, the year column of the athletes table holds
  the numeric reading of each value (a text that is no number becomes the missing
  value, never zero), and the subset holds exactly the rows of that table whose year is
  a number greater than or equal to the cutoff, in order; a row with a missing year is
  in no subset. The report gives the two row counts and the retention
  \<open>active / total * 100\<close>. For the cutoff 2020 and the years 2016, 2020, 2024 and missing,
  the subset is the rows of 2020 and 2024 and the retention is 50.
\<close>

theorem active_subset_exact:
  "(create_active_athletes_subset parse s cutoff = Inr (s', rep) \<longrightarrow>
      (\<exists>t yc a.
         resolve_year_col (athletes s) = Inr (t, yc) \<and>
         rows (athletes s') = map (\<lambda>r. r(yc \<mapsto> to_numeric parse (cell_of r yc))) (rows t) \<and>
         active_athletes s' = Some a \<and>
         columns a = columns (athletes s') \<and>
         rows a = filter (\<lambda>r. \<exists>y. cell_of r yc = Num y \<and> cutoff \<le> y) (rows (athletes s')) \<and>
         total_athletes rep = length (rows (athletes s')) \<and>
         active_count rep = length (rows a) \<and>
         retention_rate rep = real (active_count rep) / real (total_athletes rep) * 100)) \<and>
   (parse x = None \<longrightarrow> to_numeric parse (Str x) = NaN) \<and>
   (parse x = Some y \<longrightarrow> to_numeric parse (Str x) = Num y) \<and>
   to_numeric parse (Num y) = Num y \<and>
   to_numeric parse NaN = NaN \<and>
   \<not> year_ge cutoff NaN \<and>
   (\<exists>s2 a.
      create_active_athletes_subset parse (ex_state ex_years) 2020 =
        Inr (s2, \<lparr>total_athletes = 4, active_count = 2, inactive_count = 2,
                  retention_rate = 50\<rparr>) \<and>
      active_athletes s2 = Some a \<and>
      rows a = [year_row ''B'' (Num 2020), year_row ''C'' (Num 2024)])"
proof -
  have general: "create_active_athletes_subset parse s cutoff = Inr (s', rep) \<longrightarrow>
      (\<exists>t yc a.
         resolve_year_col (athletes s) = Inr (t, yc) \<and>
         rows (athletes s') = map (\<lambda>r. r(yc \<mapsto> to_numeric parse (cell_of r yc))) (rows t) \<and>
         active_athletes s' = Some a \<and>
         columns a = columns (athletes s') \<and>
         rows a = filter (\<lambda>r. \<exists>y. cell_of r yc = Num y \<and> cutoff \<le> y) (rows (athletes s')) \<and>
         total_athletes rep = length (rows (athletes s')) \<and>
         active_count rep = length (rows a) \<and>
         retention_rate rep = real (active_count rep) / real (total_athletes rep) * 100)"
  proof
    assume "create_active_athletes_subset parse s cutoff = Inr (s', rep)"
    from create_active_Inr [OF this] obtain t yc a where
      r: "resolve_year_col (athletes s) = Inr (t, yc)" and
      a': "athletes s' = set_column yc Numeric (\<lambda>r. to_numeric parse (cell_of r yc)) t" and
      act: "active_athletes s' = Some a" and
      a: "a = select (\<lambda>r. year_ge cutoff (cell_of r yc)) (athletes s')" and
      n: "total_athletes rep = length (rows (athletes s'))" "active_count rep = length (rows a)"
        "retention_rate rep = real (active_count rep) / real (total_athletes rep) * 100"
      by blast
    have "rows (athletes s') = map (\<lambda>r. r(yc \<mapsto> to_numeric parse (cell_of r yc))) (rows t)"
      by (simp add: a' rows_set_column)
    moreover have "columns a = columns (athletes s')"
      by (simp add: a select_def)
    moreover have "rows a =
        filter (\<lambda>r. \<exists>y. cell_of r yc = Num y \<and> cutoff \<le> y) (rows (athletes s'))"
      by (simp add: a select_def year_ge_iff)
    ultimately show "\<exists>t yc a.
         resolve_year_col (athletes s) = Inr (t, yc) \<and>
         rows (athletes s') = map (\<lambda>r. r(yc \<mapsto> to_numeric parse (cell_of r yc))) (rows t) \<and>
         active_athletes s' = Some a \<and>
         columns a = columns (athletes s') \<and>
         rows a = filter (\<lambda>r. \<exists>y. cell_of r yc = Num y \<and> cutoff \<le> y) (rows (athletes s')) \<and>
         total_athletes rep = length (rows (athletes s')) \<and>
         active_count rep = length (rows a) \<and>
         retention_rate rep = real (active_count rep) / real (total_athletes rep) * 100"
      using r act n by blast
  qed
  have cells: "parse x = None \<longrightarrow> to_numeric parse (Str x) = NaN"
    "parse x = Some y \<longrightarrow> to_numeric parse (Str x) = Num y"
    "to_numeric parse (Num y) = Num y" "to_numeric parse NaN = NaN" "\<not> year_ge cutoff NaN"
    by (simp_all add: to_numeric_def year_ge_def)
  have example: "\<exists>s2 a.
      create_active_athletes_subset parse (ex_state ex_years) 2020 =
        Inr (s2, \<lparr>total_athletes = 4, active_count = 2, inactive_count = 2,
                  retention_rate = 50\<rparr>) \<and>
      active_athletes s2 = Some a \<and>
      rows a = [year_row ''B'' (Num 2020), year_row ''C'' (Num 2024)]"
    by (simp add: ex_years_subset)
  show ?thesis
    by (intro conjI general cells example)
qed


theorem active_subset_exact_witness:
  "(\<exists>s' rep a.
      create_active_athletes_subset ex_parse (ex_state ex_years_text) 2020 = Inr (s', rep) \<and>
      rows (athletes s') = [year_row ''A'' NaN, year_row ''B'' (Num 2021)] \<and>
      active_athletes s' = Some a \<and>
      rows a = [year_row ''B'' (Num 2021)] \<and>
      total_athletes rep = 2 \<and> active_count rep = 1 \<and> retention_rate rep = 50) \<and>
   to_numeric ex_parse (Str ''unknown'') = NaN \<and>
   to_numeric ex_parse (Str ''2021'') = Num 2021"
proof -
  let ?t = "set_column ''year'' Numeric (\<lambda>r. to_numeric ex_parse (cell_of r ''year'')) ex_years_text"
  let ?s = "(ex_state ex_years_text)
      \<lparr>athletes := ?t,
       active_athletes := Some (select (\<lambda>r. year_ge 2020 (cell_of r ''year'')) ?t)\<rparr>"
  let ?rep = "\<lparr>total_athletes = 2, active_count = 1, inactive_count = 1, retention_rate = 50\<rparr>"
  have r: "resolve_year_col ex_years_text = Inr (ex_years_text, ''year'')"
    by (simp add: resolve_year_col_def find_year_col_def has_col_def ex_years_text_def)
  have u: "(year_row n y)(''year'' \<mapsto> v) = year_row n v" for n y v
    by (simp add: year_row_def)
  have c: "cell_of (year_row n y) ''year'' = y" for n y
    by (simp add: year_row_def cell_of_def)
  have p: "ex_parse ''unknown'' = None" "ex_parse ''2021'' = Some 2021"
    by (simp_all add: ex_parse_def)
  have rows_t: "rows ?t = [year_row ''A'' NaN, year_row ''B'' (Num 2021)]"
    by (simp add: set_column_def ex_years_text_def u c to_numeric_def p)
  have run: "create_active_athletes_subset ex_parse (ex_state ex_years_text) 2020 = Inr (?s, ?rep)"
    by (simp add: create_active_athletes_subset_def ex_state_def r retention_def Let_def
        select_def rows_t c year_ge_def)
  note T = active_subset_exact [of ex_parse "ex_state ex_years_text" 2020 ?s ?rep "''unknown''" 2021]
  note T' = active_subset_exact [of ex_parse "ex_state ex_years_text" 2020 ?s ?rep "''2021''" 2021]
  from T run obtain t yc a where
    res: "resolve_year_col (athletes (ex_state ex_years_text)) = Inr (t, yc)" and
    act: "active_athletes ?s = Some a" and
    sub: "rows a = filter (\<lambda>r. \<exists>y. cell_of r yc = Num y \<and> 2020 \<le> y) (rows (athletes ?s))" and
    cnt: "total_athletes ?rep = length (rows (athletes ?s))" "active_count ?rep = length (rows a)"
      "retention_rate ?rep = real (active_count ?rep) / real (total_athletes ?rep) * 100"
    by blast
  from res have yc: "yc = ''year''"
    by (simp add: ex_state_def r)
  have a: "rows a = [year_row ''B'' (Num 2021)]"
    by (simp add: sub yc rows_t c)
  have n1: "to_numeric ex_parse (Str ''unknown'') = NaN"
    using T p by blast
  have n2: "to_numeric ex_parse (Str ''2021'') = Num 2021"
    using T' p by blast
  have "rows (athletes ?s) = [year_row ''A'' NaN, year_row ''B'' (Num 2021)]"
    by (simp add: rows_t)
  with run act a have "\<exists>s' rep a.
      create_active_athletes_subset ex_parse (ex_state ex_years_text) 2020 = Inr (s', rep) \<and>
      rows (athletes s') = [year_row ''A'' NaN, year_row ''B'' (Num 2021)] \<and>
      active_athletes s' = Some a \<and>
      rows a = [year_row ''B'' (Num 2021)] \<and>
      total_athletes rep = 2 \<and> active_count rep = 1 \<and> retention_rate rep = 50"
    by (intro exI [of _ ?s] exI [of _ ?rep] exI [of _ a]) simp
  then show ?thesis
    using n1 n2 by blast
qed

lemma run_full_no_edition:
  "\<not> has_col (athletes s) ''edition'' \<Longrightarrow>
   run_full_standardization parse py_int s = Inl (KeyError ''edition'')"
  by (simp add: run_full_standardization_def handle_historical_anomalies_def)

lemma run_full_subset_error:
  "handle_historical_anomalies s = Inr (s1, r1) \<Longrightarrow>
   standardize_country_codes s1 = Inr (s2, r2) \<Longrightarrow>
   create_active_athletes_subset parse s2 2020 = Inl e \<Longrightarrow>
   run_full_standardization parse py_int s = Inl e"
  by (simp add: run_full_standardization_def)

text \<open>
  C4. Deriving the active subset raises the ValueError
  \<^verbatim>\<open>Cannot find year information in athletes dataset\<close> if and only if the athletes table
  has none of the columns year, edition_year, games_year and edition; it raises no other
  ValueError. An exception of this stage ends the run of the pipeline with that
  exception. A table without an edition column ends the run earlier, with the KeyError
  of the anomaly stage, which reads that column with no guard.
\<close>

theorem year_source_error:
  "((create_active_athletes_subset parse s cutoff =
       Inl (ValueError ''Cannot find year information in athletes dataset'')) =
    (\<not> has_col (athletes s) ''year'' \<and> \<not> has_col (athletes s) ''edition_year'' \<and>
     \<not> has_col (athletes s) ''games_year'' \<and> \<not> has_col (athletes s) ''edition'')) \<and>
   (create_active_athletes_subset parse s cutoff = Inl (ValueError msg) \<longrightarrow>
      msg = ''Cannot find year information in athletes dataset'') \<and>
   (handle_historical_anomalies s = Inr (s1, r1) \<and>
    standardize_country_codes s1 = Inr (s2, r2) \<and>
    create_active_athletes_subset parse s2 2020 = Inl e \<longrightarrow>
      run_full_standardization parse py_int s = Inl e) \<and>
   (\<not> has_col (athletes s) ''edition'' \<longrightarrow>
      run_full_standardization parse py_int s = Inl (KeyError ''edition''))"
proof -
  have iff: "(create_active_athletes_subset parse s cutoff = Inl (ValueError m)) =
      (m = ''Cannot find year information in athletes dataset'' \<and>
       \<not> has_col (athletes s) ''year'' \<and> \<not> has_col (athletes s) ''edition_year'' \<and>
       \<not> has_col (athletes s) ''games_year'' \<and> \<not> has_col (athletes s) ''edition'')" for m
    by (simp add: create_active_Inl resolve_year_col_ValueError)
  have a: "(create_active_athletes_subset parse s cutoff =
       Inl (ValueError ''Cannot find year information in athletes dataset'')) =
    (\<not> has_col (athletes s) ''year'' \<and> \<not> has_col (athletes s) ''edition_year'' \<and>
     \<not> has_col (athletes s) ''games_year'' \<and> \<not> has_col (athletes s) ''edition'')"
    by (simp add: iff)
  have b: "create_active_athletes_subset parse s cutoff = Inl (ValueError msg) \<longrightarrow>
      msg = ''Cannot find year information in athletes dataset''"
    by (simp add: iff)
  have c: "handle_historical_anomalies s = Inr (s1, r1) \<and>
    standardize_country_codes s1 = Inr (s2, r2) \<and>
    create_active_athletes_subset parse s2 2020 = Inl e \<longrightarrow>
      run_full_standardization parse py_int s = Inl e"
    by (simp add: run_full_subset_error)
  have d: "\<not> has_col (athletes s) ''edition'' \<longrightarrow>
      run_full_standardization parse py_int s = Inl (KeyError ''edition'')"
    by (simp add: run_full_no_edition)
  show ?thesis
    by (intro conjI a b c d)
qed

theorem year_source_error_witness:
  "create_active_athletes_subset ex_parse (ex_state ex_no_year) 2020 =
     Inl (ValueError ''Cannot find year information in athletes dataset'') \<and>
   create_active_athletes_subset ex_parse (ex_state ex_years_text) 2020 \<noteq>
     Inl (ValueError ''Cannot find year information in athletes dataset'') \<and>
   run_full_standardization ex_parse (\<lambda>_. None) (ex_state ex_no_year) = Inl (KeyError ''edition'') \<and>
   run_full_standardization ex_parse (\<lambda>_. None) (ex_state ex_empty) = Inl ZeroDivisionError"
proof -
  let ?m = "''Cannot find year information in athletes dataset''"
  note T1 = year_source_error [of ex_parse "ex_state ex_no_year" 2020 ?m
      "ex_state ex_empty" "(0, None)" "ex_state ex_empty" "Some 0" ZeroDivisionError "\<lambda>_. None"]
  note T2 = year_source_error [of ex_parse "ex_state ex_years_text" 2020 ?m
      "ex_state ex_empty" "(0, None)" "ex_state ex_empty" "Some 0" ZeroDivisionError "\<lambda>_. None"]
  note T3 = year_source_error [of ex_parse "ex_state ex_empty" 2020 ?m
      "ex_state ex_empty" "(0, None)" "ex_state ex_empty" "Some 0" ZeroDivisionError "\<lambda>_. None"]
  have cols: "\<not> has_col (athletes (ex_state ex_no_year)) ''year''"
    "\<not> has_col (athletes (ex_state ex_no_year)) ''edition_year''"
    "\<not> has_col (athletes (ex_state ex_no_year)) ''games_year''"
    "\<not> has_col (athletes (ex_state ex_no_year)) ''edition''"
    "has_col (athletes (ex_state ex_years_text)) ''year''"
    by (simp_all add: has_col_def ex_state_def ex_no_year_def ex_years_text_def text_table_def)
  have c1: "create_active_athletes_subset ex_parse (ex_state ex_no_year) 2020 = Inl (ValueError ?m)"
    using T1 cols by blast
  have c2: "create_active_athletes_subset ex_parse (ex_state ex_years_text) 2020 \<noteq> Inl (ValueError ?m)"
    using T2 cols by blast
  have c3: "run_full_standardization ex_parse (\<lambda>_. None) (ex_state ex_no_year) = Inl (KeyError ''edition'')"
    using T1 cols by blast
  have h: "handle_historical_anomalies (ex_state ex_empty) = Inr (ex_state ex_empty, 0, None)"
    by (simp add: handle_historical_anomalies_def ex_state_def ex_empty_def text_table_def
        has_col_def delete_1906_def select_def column_def sortable_def Let_def)
  have st: "standardize_country_codes (ex_state ex_empty) = Inr (ex_state ex_empty, Some 0)"
    by (simp add: standardize_country_codes_def standardize_noc_def consolidate_def ex_state_def
        ex_empty_def text_table_def has_col_def select_def Let_def)
  have z: "create_active_athletes_subset ex_parse (ex_state ex_empty) 2020 = Inl ZeroDivisionError"
    by (simp add: create_active_athletes_subset_def resolve_year_col_def find_year_col_def
        str_accessor_ok_def column_def set_column_def select_def retention_def ex_state_def
        ex_empty_def text_table_def has_col_def Let_def)
  have c4: "run_full_standardization ex_parse (\<lambda>_. None) (ex_state ex_empty) = Inl ZeroDivisionError"
    using T3 h st z by blast
  show ?thesis
    by (intro conjI c1 c2 c3 c4)
qed

lemma summary_years_empty: "\<exists>e. summary_years py_int [] = Inl e"
  by (simp add: summary_years_def series_min_max_def dropna_def int_of_cell_def)

lemma get_data_summary_empty_no_year:
  "rows t = [] \<Longrightarrow> \<not> has_col t ''year'' \<Longrightarrow>
   get_data_summary py_int t (Some a) = Inl ZeroDivisionError"
  by (simp add: get_data_summary_def retention_def)

lemma get_data_summary_empty:
  assumes "rows t = []"
  shows "\<exists>e. get_data_summary py_int t (Some a) = Inl e"
proof (cases "has_col t ''year''")
  case True
  from summary_years_empty obtain e where "summary_years py_int [] = Inl e" ..
  with True assms show ?thesis
    by (simp add: get_data_summary_def column_def)
next
  case False
  with assms show ?thesis
    by (simp add: get_data_summary_empty_no_year)
qed

lemma resolve_year_col_empty:
  assumes "rows t = []"
    and "has_col t ''year'' \<or> has_col t ''edition_year'' \<or> has_col t ''games_year'' \<or>
         (has_col t ''edition'' \<and> dtypes t ''edition'' = Object)"
  shows "\<exists>t' yc. resolve_year_col t = Inr (t', yc)"
  using assms
  by (auto simp: resolve_year_col_def find_year_col_def str_accessor_ok_def column_def
      split: option.splits)

text \<open>
  C10. On an athletes table with no row and a usable year source (one of the columns
  year, edition_year, games_year, or a text-typed edition column), deriving the active
  subset raises ZeroDivisionError: the retention divides the active row count by the
  total row count, which is zero. The data summary performs the same division: on a
  table with no row and an active subset given it raises, with ZeroDivisionError when
  the table has no year column.
\<close>

theorem empty_table_division:
  "(rows (athletes s) = [] \<and>
    (has_col (athletes s) ''year'' \<or> has_col (athletes s) ''edition_year'' \<or>
     has_col (athletes s) ''games_year'' \<or>
     (has_col (athletes s) ''edition'' \<and> dtypes (athletes s) ''edition'' = Object)) \<longrightarrow>
      create_active_athletes_subset parse s cutoff = Inl ZeroDivisionError) \<and>
   retention n 0 = Inl ZeroDivisionError \<and>
   (rows t = [] \<and> \<not> has_col t ''year'' \<longrightarrow>
      get_data_summary py_int t (Some a) = Inl ZeroDivisionError) \<and>
   (rows t = [] \<longrightarrow> (\<exists>e. get_data_summary py_int t (Some a) = Inl e))"
proof -
  have sub: "rows (athletes s) = [] \<and>
    (has_col (athletes s) ''year'' \<or> has_col (athletes s) ''edition_year'' \<or>
     has_col (athletes s) ''games_year'' \<or>
     (has_col (athletes s) ''edition'' \<and> dtypes (athletes s) ''edition'' = Object)) \<longrightarrow>
      create_active_athletes_subset parse s cutoff = Inl ZeroDivisionError"
    using resolve_year_col_empty [of "athletes s"]
    by (auto simp: create_active_Inl)
  have r: "retention n 0 = Inl ZeroDivisionError"
    by (simp add: retention_def)
  have g1: "rows t = [] \<and> \<not> has_col t ''year'' \<longrightarrow>
      get_data_summary py_int t (Some a) = Inl ZeroDivisionError"
    by (simp add: get_data_summary_empty_no_year)
  have g2: "rows t = [] \<longrightarrow> (\<exists>e. get_data_summary py_int t (Some a) = Inl e)"
    by (simp add: get_data_summary_empty)
  show ?thesis
    by (intro conjI sub r g1 g2)
qed

theorem empty_table_division_witness:
  "create_active_athletes_subset ex_parse (ex_state ex_empty) 2020 = Inl ZeroDivisionError \<and>
   get_data_summary (\<lambda>_. None) ex_empty (Some ex_empty) = Inl ZeroDivisionError"
proof -
  note T = empty_table_division [of "ex_state ex_empty" ex_parse 2020 0 ex_empty "\<lambda>_. None" ex_empty]
  have e: "rows (athletes (ex_state ex_empty)) = []" "rows ex_empty = []"
    "has_col (athletes (ex_state ex_empty)) ''edition''"
    "dtypes (athletes (ex_state ex_empty)) ''edition'' = Object"
    "\<not> has_col ex_empty ''year''"
    by (simp_all add: ex_state_def ex_empty_def text_table_def has_col_def)
  have c1: "create_active_athletes_subset ex_parse (ex_state ex_empty) 2020 = Inl ZeroDivisionError"
    using T e by blast
  have c2: "get_data_summary (\<lambda>_. None) ex_empty (Some ex_empty) = Inl ZeroDivisionError"
    using T e by blast
  show ?thesis
    by (intro conjI c1 c2)
qed

subsection \<open>Year extraction\<close>

lemma decimal_zeros_apart: "sorted_wrt (\<lambda>a b. a + 10 \<le> b) decimal_zeros"
  by (simp add: decimal_zeros_def)

lemma find_block:
  "sorted_wrt (\<lambda>a b. a + 10 \<le> b) zs \<Longrightarrow> z \<in> set zs \<Longrightarrow> z \<le> cp \<Longrightarrow> cp < z + 10 \<Longrightarrow>
   find (\<lambda>z. z \<le> cp \<and> cp < z + (10::nat)) zs = Some z"
  by (induction zs) fastforce+

lemma decimal_value_iff:
  "(decimal_value cp = Some v) =
     (\<exists>z\<in>set decimal_zeros. z \<le> cp \<and> cp < z + 10 \<and> v = cp - z)"
proof
  assume "decimal_value cp = Some v"
  then obtain z where "find (\<lambda>z. z \<le> cp \<and> cp < z + 10) decimal_zeros = Some z" "v = cp - z"
    by (auto simp: decimal_value_def)
  then show "\<exists>z\<in>set decimal_zeros. z \<le> cp \<and> cp < z + 10 \<and> v = cp - z"
    by (auto simp: find_Some_iff)
next
  assume "\<exists>z\<in>set decimal_zeros. z \<le> cp \<and> cp < z + 10 \<and> v = cp - z"
  then obtain z where "z \<in> set decimal_zeros" "z \<le> cp" "cp < z + 10" "v = cp - z"
    by blast
  with find_block [OF decimal_zeros_apart] show "decimal_value cp = Some v"
    by (simp add: decimal_value_def)
qed

lemma decimal_value_ascii:
  "cp < 128 \<Longrightarrow> decimal_value cp = (if 48 \<le> cp \<and> cp \<le> 57 then Some (cp - 48) else None)"
  by (simp add: decimal_value_def decimal_zeros_def)

lemma read_digit_ascii:
  "(of_char c :: nat) < 128 \<Longrightarrow>
   read_digit (c # x) =
     (if 48 \<le> (of_char c :: nat) \<and> (of_char c :: nat) \<le> 57
      then Some (of_char c - 48, x) else None)"
  by (simp add: read_digit_def decimal_value_ascii Let_def)

lemma read_digit_Nil: "read_digit [] = None"
  by (simp add: read_digit_def)

lemma read4_Nil: "read4 [] = None"
  by (simp add: read4_def read_digit_Nil)

lemma read_digit_less: "read_digit x = Some (d, rest) \<Longrightarrow> d < 10"
  by (auto simp: read_digit_def decimal_value_iff split: option.splits)

lemma read4_digits:
  assumes "read4 x = Some (ds, rest)"
  shows "\<exists>d1 d2 d3 d4. ds = [d1, d2, d3, d4] \<and> d1 < 10 \<and> d2 < 10 \<and> d3 < 10 \<and> d4 < 10 \<and>
     digits_value ds = 1000 * d1 + 100 * d2 + 10 * d3 + d4"
proof -
  from assms obtain d1 x1 d2 x2 d3 x3 d4 where
    r: "read_digit x = Some (d1, x1)" "read_digit x1 = Some (d2, x2)"
      "read_digit x2 = Some (d3, x3)" "read_digit x3 = Some (d4, rest)" and
    ds: "ds = [d1, d2, d3, d4]"
    by (auto simp: read4_def split: option.splits)
  have "d1 < 10" "d2 < 10" "d3 < 10" "d4 < 10"
    using r by (blast intro: read_digit_less)+
  then show ?thesis
    by (simp add: ds digits_value_def)
qed

lemma extract4_leftmost:
  "extract4 x = Some ds \<Longrightarrow>
     \<exists>i rest. i < length x \<and> read4 (drop i x) = Some (ds, rest) \<and>
       (\<forall>j<i. read4 (drop j x) = None)"
proof (induction x)
  case Nil
  then show ?case by simp
next
  case (Cons b bs)
  show ?case
  proof (cases "read4 (b # bs)")
    case None
    with Cons.prems have "extract4 bs = Some ds" by simp
    from Cons.IH [OF this] obtain i rest where
      i: "i < length bs" "read4 (drop i bs) = Some (ds, rest)" "\<forall>j<i. read4 (drop j bs) = None"
      by blast
    have "read4 (drop j (b # bs)) = None" if "j < Suc i" for j
      using that None i(3) by (cases j) auto
    with i(1,2) show ?thesis
      by (intro exI [of _ "Suc i"] exI [of _ rest]) simp
  next
    case (Some p)
    obtain ds' rest where p: "p = (ds', rest)" by (cases p)
    with Some Cons.prems have "ds' = ds" by simp
    with Some p show ?thesis
      by (intro exI [of _ 0] exI [of _ rest]) simp
  qed
qed

lemma extract4_None: "extract4 x = None \<Longrightarrow> read4 (drop i x) = None"
proof (induction x arbitrary: i)
  case Nil
  then show ?case by (simp add: read4_Nil)
next
  case (Cons b bs)
  then have "read4 (b # bs) = None" "extract4 bs = None"
    by (auto split: option.splits)
  with Cons.IH show ?case
    by (cases i) auto
qed

lemma to_numeric_extract_year: "to_numeric parse (extract_year c) = extract_year c"
  by (cases c) (simp_all add: to_numeric_def extract_year_def split: option.splits)

lemma extracted_year_column:
  assumes "find_year_col (athletes s) = None"
    and "create_active_athletes_subset parse s cutoff = Inr (s', rep)"
  shows "rows (athletes s') =
     map (\<lambda>r. r(''year'' \<mapsto> extract_year (cell_of r ''edition''))) (rows (athletes s))"
proof -
  from create_active_Inr [OF assms(2)] obtain t yc where
    r: "resolve_year_col (athletes s) = Inr (t, yc)" and
    a: "athletes s' = set_column yc Numeric (\<lambda>r. to_numeric parse (cell_of r yc)) t"
    by blast
  from r assms(1) have yc: "yc = ''year''"
    and t: "t = set_column ''year'' Numeric (\<lambda>r. extract_year (cell_of r ''edition'')) (athletes s)"
    by (auto simp: resolve_year_col_def split: if_splits)
  show ?thesis
    by (simp add: a yc t rows_set_column cell_of_upd to_numeric_extract_year o_def)
qed

lemma extract_year_examples:
  "extract_year (Str ''1996 Summer Games'') = Num 1996"
  "extract_year (Str ''Games of 1896 and 1900'') = Num 1896"
  "extract_year (Str ''Athina Games'') = NaN"
  by (simp_all add: extract_year_def read4_def read_digit_ascii digits_value_def)

lemma extract_year_arabic_indic: "extract_year (Str ex_arabic_indic) = Num 2020"
  by (simp add: extract_year_def ex_arabic_indic_def read4_def read_digit_def continuation_def
      decimal_value_def decimal_zeros_def digits_value_def Let_def)

lemma read_digit_iff:
  "(read_digit y = Some (d, rest)) =
     (\<exists>cp z. utf8_head y = Some (cp, rest) \<and> z \<in> set decimal_zeros \<and> z \<le> cp \<and>
        cp < z + 10 \<and> d = cp - z)"
proof -
  have "(read_digit y = Some (d, rest)) =
      (\<exists>cp. utf8_head y = Some (cp, rest) \<and> decimal_value cp = Some d)"
    by (auto simp: read_digit_def split: option.splits)
  then show ?thesis
    unfolding decimal_value_iff by blast
qed

text \<open>
  C6, as amended. The year derived from an edition label is the number written by the
  leftmost four consecutive decimal digits of the label: the digits are read at the
  first offset of the text at which four decimal digits stand, each digit any Unicode
  decimal digit with its decimal value (for the ASCII characters, \<open>0\<close> to \<open>9\<close> and no
  other). So a label with several runs of four digits gives the leftmost one, not the
  missing value, and a label with no four consecutive decimal digits gives the missing
  value. The label \<^verbatim>\<open>1996 Summer Games\<close> gives 1996, and a label that writes 2020 in
  Arabic-Indic digits gives 2020. When the athletes table has none of the year
  columns and the active subset is derived, the year column it gets holds the year
  derived from each row's edition.
\<close>

theorem year_extraction_leftmost:
  "(extract4 x = Some ds \<longrightarrow>
      extract_year (Str x) = Num (real (digits_value ds)) \<and>
      (\<exists>i rest. i < length x \<and> read4 (drop i x) = Some (ds, rest) \<and>
         (\<forall>j<i. read4 (drop j x) = None))) \<and>
   (extract4 x = None \<longrightarrow>
      extract_year (Str x) = NaN \<and> (\<forall>i. read4 (drop i x) = None)) \<and>
   (read4 y = Some (ds', rest') \<longrightarrow>
      (\<exists>d1 d2 d3 d4. ds' = [d1, d2, d3, d4] \<and> d1 < 10 \<and> d2 < 10 \<and> d3 < 10 \<and> d4 < 10 \<and>
         digits_value ds' = 1000 * d1 + 100 * d2 + 10 * d3 + d4)) \<and>
   ((read_digit y = Some (d, rest'')) =
      (\<exists>cp z. utf8_head y = Some (cp, rest'') \<and> z \<in> set decimal_zeros \<and> z \<le> cp \<and>
         cp < z + 10 \<and> d = cp - z)) \<and>
   ((of_char c :: nat) < 128 \<longrightarrow>
      read_digit (c # y) =
        (if 48 \<le> (of_char c :: nat) \<and> (of_char c :: nat) \<le> 57
         then Some (of_char c - 48, y) else None)) \<and>
   extract_year (Str ''1996 Summer Games'') = Num 1996 \<and>
   extract_year (Str ex_arabic_indic) = Num 2020 \<and>
   (find_year_col (athletes s) = None \<and>
    create_active_athletes_subset parse s cutoff = Inr (s', rep) \<longrightarrow>
      rows (athletes s') =
        map (\<lambda>r. r(''year'' \<mapsto> extract_year (cell_of r ''edition''))) (rows (athletes s)))"
proof -
  have some: "extract4 x = Some ds \<longrightarrow>
      extract_year (Str x) = Num (real (digits_value ds)) \<and>
      (\<exists>i rest. i < length x \<and> read4 (drop i x) = Some (ds, rest) \<and>
         (\<forall>j<i. read4 (drop j x) = None))"
    using extract4_leftmost [of x ds] by (simp add: extract_year_def)
  have none: "extract4 x = None \<longrightarrow>
      extract_year (Str x) = NaN \<and> (\<forall>i. read4 (drop i x) = None)"
    using extract4_None [of x] by (simp add: extract_year_def)
  have four: "read4 y = Some (ds', rest') \<longrightarrow>
      (\<exists>d1 d2 d3 d4. ds' = [d1, d2, d3, d4] \<and> d1 < 10 \<and> d2 < 10 \<and> d3 < 10 \<and> d4 < 10 \<and>
         digits_value ds' = 1000 * d1 + 100 * d2 + 10 * d3 + d4)"
    using read4_digits [of y ds' rest'] by blast
  have ascii: "(of_char c :: nat) < 128 \<longrightarrow>
      read_digit (c # y) =
        (if 48 \<le> (of_char c :: nat) \<and> (of_char c :: nat) \<le> 57
         then Some (of_char c - 48, y) else None)"
    using read_digit_ascii [of c y] by blast
  have col: "find_year_col (athletes s) = None \<and>
    create_active_athletes_subset parse s cutoff = Inr (s', rep) \<longrightarrow>
      rows (athletes s') =
        map (\<lambda>r. r(''year'' \<mapsto> extract_year (cell_of r ''edition''))) (rows (athletes s))"
    using extracted_year_column [of s parse cutoff s' rep] by blast
  show ?thesis
    by (intro conjI some none four read_digit_iff ascii extract_year_examples(1)
        extract_year_arabic_indic col)
qed

theorem year_extraction_counterexample:
  "extract_year (Str ''Games of 1896 and 1900'') = Num 1896"
  by (simp add: extract_year_def read4_def read_digit_ascii digits_value_def)

theorem year_extraction_leftmost_witness:
  "extract_year (Str ''Games of 1896 and 1900'') = Num (real (digits_value [1, 8, 9, 6])) \<and>
   digits_value [1, 8, 9, 6] = 1896 \<and>
   read4 (drop 9 ''Games of 1896 and 1900'') = Some ([1, 8, 9, 6], '' and 1900'') \<and>
   extract_year (Str ''Athina Games'') = NaN \<and>
   read_digit ''7 May'' = Some (7, '' May'') \<and>
   (\<exists>s' rep.
      create_active_athletes_subset ex_parse (ex_state ex_editions) 1900 = Inr (s', rep) \<and>
      map (\<lambda>r. cell_of r ''year'') (rows (athletes s')) = [Num 1996, Num 1896, NaN] \<and>
      active_count rep = 1)"
proof -
  let ?t = "set_column ''year'' Numeric (\<lambda>r. extract_year (cell_of r ''edition'')) ex_editions"
  let ?s = "(ex_state ex_editions)\<lparr>athletes := ?t,
      active_athletes := Some (select (\<lambda>r. year_ge 1900 (cell_of r ''year'')) ?t)\<rparr>"
  let ?rep = "\<lparr>total_athletes = 3, active_count = 1, inactive_count = 2,
      retention_rate = 1 / 3 * 100\<rparr>"
  note T1 = year_extraction_leftmost [of "''Games of 1896 and 1900''" "[1, 8, 9, 6]"
      "''1896 and 1900''" "[1, 8, 9, 6]" "'' and 1900''" 7 "'' May''" "CHR ''7''"
      "ex_state ex_editions" ex_parse 1900 ?s ?rep]
  note T2 = year_extraction_leftmost [of "''Athina Games''" "[1, 8, 9, 6]"
      "'' May''" "[1, 8, 9, 6]" "'' and 1900''" 7 "'' May''" "CHR ''7''"
      "ex_state ex_editions" ex_parse 1900 ?s ?rep]
  have r4: "read4 ''1896 and 1900'' = Some ([1, 8, 9, 6], '' and 1900'')"
    by (simp add: read4_def read_digit_ascii)
  have e1: "extract4 ''Games of 1896 and 1900'' = Some [1, 8, 9, 6]"
    by (simp add: read4_def read_digit_ascii)
  have e2: "extract4 ''Athina Games'' = None"
    by (simp add: read4_def read_digit_ascii)
  note y = extract_year_examples
  have f: "find_year_col (athletes (ex_state ex_editions)) = None"
    by (simp add: find_year_col_def has_col_def ex_state_def ex_editions_def text_table_def)
  have res: "resolve_year_col ex_editions = Inr (?t, ''year'')"
    by (simp add: resolve_year_col_def find_year_col_def has_col_def str_accessor_ok_def
        column_def is_Str_def cell_of_def ex_editions_def text_table_def)
  have same: "set_column ''year'' Numeric (\<lambda>r. to_numeric ex_parse (cell_of r ''year'')) ?t = ?t"
    by (simp add: set_column_def cell_of_upd to_numeric_extract_year o_def)
  have len: "length (rows ?t) = 3"
    by (simp add: set_column_def ex_editions_def text_table_def)
  have act: "length (filter (\<lambda>r. year_ge 1900 (cell_of r ''year'')) (rows ?t)) = 1"
    by (simp add: set_column_def ex_editions_def text_table_def cell_of_def y year_ge_def)
  have ne: "rows ?t \<noteq> []"
    using len by auto
  have run: "create_active_athletes_subset ex_parse (ex_state ex_editions) 1900 = Inr (?s, ?rep)"
    by (simp add: create_active_athletes_subset_def ex_state_def res same retention_def Let_def
        select_def len act ne)
  have c1: "extract_year (Str ''Games of 1896 and 1900'') = Num (real (digits_value [1, 8, 9, 6]))"
    using T1 e1 by blast
  from T1 r4 have "\<exists>d1 d2 d3 d4. [1, 8, 9, 6] = [d1, d2, d3, d4] \<and> d1 < 10 \<and> d2 < 10 \<and>
      d3 < 10 \<and> d4 < 10 \<and> digits_value [1, 8, 9, 6] = 1000 * d1 + 100 * d2 + 10 * d3 + d4"
    by blast
  then have c2: "digits_value [1, 8, 9, 6] = 1896"
    by auto
  have c3: "read4 (drop 9 ''Games of 1896 and 1900'') = Some ([1, 8, 9, 6], '' and 1900'')"
    using r4 by simp
  have c4: "extract_year (Str ''Athina Games'') = NaN"
    using T2 e2 by blast
  have "(of_char CHR ''7'' :: nat) < 128"
    by simp
  with T2 have "read_digit (CHR ''7'' # '' May'') =
      (if 48 \<le> (of_char CHR ''7'' :: nat) \<and> (of_char CHR ''7'' :: nat) \<le> 57
       then Some (of_char CHR ''7'' - 48, '' May'') else None)"
    by blast
  then have c5: "read_digit ''7 May'' = Some (7, '' May'')"
    by simp
  have "rows (athletes ?s) =
      map (\<lambda>r. r(''year'' \<mapsto> extract_year (cell_of r ''edition''))) (rows (athletes (ex_state ex_editions)))"
    using T1 f run by blast
  then have "map (\<lambda>r. cell_of r ''year'') (rows (athletes ?s)) = [Num 1996, Num 1896, NaN]"
    by (simp add: ex_state_def ex_editions_def text_table_def cell_of_def y)
  then have c6: "\<exists>s' rep.
      create_active_athletes_subset ex_parse (ex_state ex_editions) 1900 = Inr (s', rep) \<and>
      map (\<lambda>r. cell_of r ''year'') (rows (athletes s')) = [Num 1996, Num 1896, NaN] \<and>
      active_count rep = 1"
    using run by (intro exI [of _ ?s] exI [of _ ?rep]) simp
  show ?thesis
    by (intro conjI c1 c2 c3 c4 c5 c6)
qed

subsection \<open>Validation\<close>

lemma column_edition_rewritten:
  "c \<noteq> ''edition'' \<Longrightarrow>
   column (t\<lparr>rows := map (\<lambda>r. r(''edition'' \<mapsto> f r)) (rows t)\<rparr>) c = column t c"
  by (simp add: column_def cell_of_def o_def)

lemma null_line_edition_rewritten:
  "c \<noteq> ''edition'' \<Longrightarrow>
   null_line (t\<lparr>rows := map (\<lambda>r. r(''edition'' \<mapsto> f r)) (rows t)\<rparr>) c = null_line t c"
  by (simp add: null_line_def column_edition_rewritten)

lemma validate_ignores_edition:
  "validate_data_quality py_int
     (s\<lparr>athletes := (athletes s)\<lparr>rows := map (\<lambda>r. r(''edition'' \<mapsto> f r)) (rows (athletes s))\<rparr>\<rparr>) =
   validate_data_quality py_int s"
proof -
  let ?a = "(athletes s)\<lparr>rows := map (\<lambda>r. r(''edition'' \<mapsto> f r)) (rows (athletes s))\<rparr>"
  have cols: "has_col ?a = has_col (athletes s)"
    by (simp add: has_col_def fun_eq_iff)
  have year: "column ?a ''year'' = column (athletes s) ''year''"
    and noc: "column ?a ''noc'' = column (athletes s) ''noc''"
    by (simp_all add: column_edition_rewritten)
  show ?thesis
    by (simp add: validate_data_quality_def Let_def cols year noc null_line_edition_rewritten
        cong: sum.case_cong if_cong)
qed

lemma null_line_eq:
  "null_line t c =
     NullCount c (length (filter (\<lambda>r. cell_of r c = NaN) (rows t)))
       (if rows t = [] then None
        else Some (real (length (filter (\<lambda>r. cell_of r c = NaN) (rows t))) /
                   real (length (rows t)) * 100))"
  by (simp add: null_line_def column_def filter_map o_def Let_def)

lemma validate_output:
  assumes "validate_data_quality py_int s = Inr (out, ret)"
  shows "\<exists>year_lines.
     out = Title # year_lines @
       (if has_col (athletes s) ''noc''
        then map (code_line (unique (column (athletes s) ''noc'')))
               [''MIX'', ''URS'', ''GDR'', ''FRG'', ''EUN'']
        else []) @
       NullTitle #
       map (null_line (athletes s)) (filter (has_col (athletes s)) [''noc'', ''medal'', ''sport'']) \<and>
     (if has_col (athletes s) ''year''
      then \<exists>lo hi. year_lines = YearRange lo hi #
             map (gap_line (unique (dropna (column (athletes s) ''year'')))) [1940, 1944]
      else year_lines = [])"
  using assms
  by (auto simp: validate_data_quality_def Let_def split: if_splits sum.splits)

lemma set_dropna: "set (dropna cs) = set cs - {NaN}"
  by (auto simp: dropna_def)

lemma gap_member: "(c \<in> set (unique (dropna col))) = (c \<in> set col \<and> c \<noteq> NaN)"
  by (auto simp: set_unique set_dropna)

lemma gap_lines_mem:
  "(GapWarning g \<in> gap_line ys ` set gs) = (g \<in> set gs \<and> Num (real g) \<in> set ys)"
  "(GapMissing g \<in> gap_line ys ` set gs) = (g \<in> set gs \<and> Num (real g) \<notin> set ys)"
  "CodeWarning c \<notin> gap_line ys ` set gs"
  "CodeRemoved c \<notin> gap_line ys ` set gs"
  "NullCount c k p \<notin> gap_line ys ` set gs"
  by (auto simp: gap_line_def)

lemma code_lines_mem:
  "(CodeWarning c \<in> code_line ns ` set cs) = (c \<in> set cs \<and> Str c \<in> set ns)"
  "(CodeRemoved c \<in> code_line ns ` set cs) = (c \<in> set cs \<and> Str c \<notin> set ns)"
  "GapWarning g \<notin> code_line ns ` set cs"
  "GapMissing g \<notin> code_line ns ` set cs"
  "NullCount c' k p \<notin> code_line ns ` set cs"
  by (auto simp: code_line_def)

lemma null_lines_mem:
  "(NullCount c k p \<in> null_line t ` set cs) =
     (c \<in> set cs \<and> k = length (filter (\<lambda>r. cell_of r c = NaN) (rows t)) \<and>
      p = (if rows t = [] then None else Some (real k / real (length (rows t)) * 100)))"
  "GapWarning g \<notin> null_line t ` set cs"
  "GapMissing g \<notin> null_line t ` set cs"
  "CodeWarning c' \<notin> null_line t ` set cs"
  "CodeRemoved c' \<notin> null_line t ` set cs"
  by (auto simp: null_line_eq)

lemma validate_lines:
  assumes "validate_data_quality py_int s = Inr (out, ret)"
  shows "(GapWarning g \<in> set out) =
       (has_col (athletes s) ''year'' \<and> g \<in> {1940, 1944} \<and>
        Num (real g) \<in> set (column (athletes s) ''year''))"
    and "(GapMissing g \<in> set out) =
       (has_col (athletes s) ''year'' \<and> g \<in> {1940, 1944} \<and>
        Num (real g) \<notin> set (column (athletes s) ''year''))"
    and "(CodeWarning c \<in> set out) =
       (has_col (athletes s) ''noc'' \<and> c \<in> {''MIX'', ''URS'', ''GDR'', ''FRG'', ''EUN''} \<and>
        Str c \<in> set (column (athletes s) ''noc''))"
    and "(CodeRemoved c \<in> set out) =
       (has_col (athletes s) ''noc'' \<and> c \<in> {''MIX'', ''URS'', ''GDR'', ''FRG'', ''EUN''} \<and>
        Str c \<notin> set (column (athletes s) ''noc''))"
    and "(NullCount c k p \<in> set out) =
       (c \<in> {''noc'', ''medal'', ''sport''} \<and> has_col (athletes s) c \<and>
        k = length (filter (\<lambda>r. cell_of r c = NaN) (rows (athletes s))) \<and>
        p = (if rows (athletes s) = [] then None
             else Some (real k / real (length (rows (athletes s))) * 100)))"
proof -
  define ns where "ns = filter (has_col (athletes s)) [''noc'', ''medal'', ''sport'']"
  define cs where "cs = [''MIX'', ''URS'', ''GDR'', ''FRG'', ''EUN'']"
  define gs where "gs = [1940, 1944 :: nat]"
  define cl where "cl = (if has_col (athletes s) ''noc''
      then map (code_line (unique (column (athletes s) ''noc''))) cs else [])"
  have ns: "set ns = {c \<in> {''noc'', ''medal'', ''sport''}. has_col (athletes s) c}"
    unfolding ns_def set_filter by simp
  have cs: "set cs = {''MIX'', ''URS'', ''GDR'', ''FRG'', ''EUN''}"
    by (simp add: cs_def)
  have gs: "set gs = {1940, 1944}"
    by (simp add: gs_def)
  from validate_output [OF assms] obtain yl where
    out: "out = Title # yl @ cl @ NullTitle # map (null_line (athletes s)) ns"
    and yl: "if has_col (athletes s) ''year''
      then \<exists>lo hi. yl = YearRange lo hi #
             map (gap_line (unique (dropna (column (athletes s) ''year'')))) gs
      else yl = []"
    unfolding ns_def cs_def gs_def cl_def by blast
  have cl_code: "(CodeWarning c \<in> set cl) =
       (has_col (athletes s) ''noc'' \<and> c \<in> set cs \<and> Str c \<in> set (column (athletes s) ''noc''))"
    "(CodeRemoved c \<in> set cl) =
       (has_col (athletes s) ''noc'' \<and> c \<in> set cs \<and> Str c \<notin> set (column (athletes s) ''noc''))"
    and cl_other: "GapWarning g \<notin> set cl" "GapMissing g \<notin> set cl" "NullCount c k p \<notin> set cl"
    by (simp_all add: cl_def code_lines_mem set_unique)
  have yl_gap: "(GapWarning g \<in> set yl) =
       (has_col (athletes s) ''year'' \<and> g \<in> set gs \<and>
        Num (real g) \<in> set (column (athletes s) ''year''))"
    "(GapMissing g \<in> set yl) =
       (has_col (athletes s) ''year'' \<and> g \<in> set gs \<and>
        Num (real g) \<notin> set (column (athletes s) ''year''))"
    and yl_other: "CodeWarning c \<notin> set yl" "CodeRemoved c \<notin> set yl" "NullCount c k p \<notin> set yl"
    using yl by (cases "has_col (athletes s) ''year''"; auto simp: gap_lines_mem gap_member)+
  show "(GapWarning g \<in> set out) =
       (has_col (athletes s) ''year'' \<and> g \<in> {1940, 1944} \<and>
        Num (real g) \<in> set (column (athletes s) ''year''))"
    by (simp add: out yl_gap cl_other null_lines_mem gs)
  show "(GapMissing g \<in> set out) =
       (has_col (athletes s) ''year'' \<and> g \<in> {1940, 1944} \<and>
        Num (real g) \<notin> set (column (athletes s) ''year''))"
    by (simp add: out yl_gap cl_other null_lines_mem gs)
  show "(CodeWarning c \<in> set out) =
       (has_col (athletes s) ''noc'' \<and> c \<in> {''MIX'', ''URS'', ''GDR'', ''FRG'', ''EUN''} \<and>
        Str c \<in> set (column (athletes s) ''noc''))"
    unfolding cs [symmetric] by (simp add: out yl_other cl_code null_lines_mem)
  show "(CodeRemoved c \<in> set out) =
       (has_col (athletes s) ''noc'' \<and> c \<in> {''MIX'', ''URS'', ''GDR'', ''FRG'', ''EUN''} \<and>
        Str c \<notin> set (column (athletes s) ''noc''))"
    unfolding cs [symmetric] by (simp add: out yl_other cl_code null_lines_mem)
  have "(NullCount c k p \<in> set out) =
       (c \<in> set ns \<and>
        k = length (filter (\<lambda>r. cell_of r c = NaN) (rows (athletes s))) \<and>
        p = (if rows (athletes s) = [] then None
             else Some (real k / real (length (rows (athletes s))) * 100)))"
    by (simp add: out yl_other cl_other null_lines_mem)
  then show "(NullCount c k p \<in> set out) =
       (c \<in> {''noc'', ''medal'', ''sport''} \<and> has_col (athletes s) c \<and>
        k = length (filter (\<lambda>r. cell_of r c = NaN) (rows (athletes s))) \<and>
        p = (if rows (athletes s) = [] then None
             else Some (real k / real (length (rows (athletes s))) * 100)))"
    unfolding ns by blast
qed

lemma validate_returns:
  assumes "\<not> has_col (athletes s) ''year'' \<or>
           (\<exists>r. year_range py_int (column (athletes s) ''year'') = Inr r)"
  shows "\<exists>out. validate_data_quality py_int s = Inr (out, ())"
  using assms
  by (auto simp: validate_data_quality_def Let_def)

text \<open>
  C5, as amended. The validator prints its findings and returns \<^verbatim>\<open>None\<close>. Whenever it
  returns, it has run each of its checks, whatever the other checks found: it has
  printed a warning for each of 1940 and 1944 that the year column holds and a pass
  line for each that it does not hold (when there is a year column); a warning for
  each of \<^verbatim>\<open>MIX\<close>, \<^verbatim>\<open>URS\<close>, \<^verbatim>\<open>GDR\<close>, \<^verbatim>\<open>FRG\<close>, \<^verbatim>\<open>EUN\<close> that the noc column holds and a pass
  line for each that it does not hold (when there is a noc column); and, for each of
  the columns noc, medal, sport that the table has, the number of its missing values
  and that number as a percentage of the rows. It runs no check on the period: what it
  does is the same whatever the edition column holds. No finding of a check makes it
  raise: it returns when the table has no year column, and when the year range of
  lines 198-199 has a value.
\<close>

theorem validator_checks:
  "(validate_data_quality py_int s = Inr (out, ret) \<longrightarrow>
      ret = () \<and>
      (GapWarning g \<in> set out) =
        (has_col (athletes s) ''year'' \<and> g \<in> {1940, 1944} \<and>
         Num (real g) \<in> set (column (athletes s) ''year'')) \<and>
      (GapMissing g \<in> set out) =
        (has_col (athletes s) ''year'' \<and> g \<in> {1940, 1944} \<and>
         Num (real g) \<notin> set (column (athletes s) ''year'')) \<and>
      (CodeWarning c \<in> set out) =
        (has_col (athletes s) ''noc'' \<and> c \<in> {''MIX'', ''URS'', ''GDR'', ''FRG'', ''EUN''} \<and>
         Str c \<in> set (column (athletes s) ''noc'')) \<and>
      (CodeRemoved c \<in> set out) =
        (has_col (athletes s) ''noc'' \<and> c \<in> {''MIX'', ''URS'', ''GDR'', ''FRG'', ''EUN''} \<and>
         Str c \<notin> set (column (athletes s) ''noc'')) \<and>
      (NullCount col k p \<in> set out) =
        (col \<in> {''noc'', ''medal'', ''sport''} \<and> has_col (athletes s) col \<and>
         k = length (filter (\<lambda>r. cell_of r col = NaN) (rows (athletes s))) \<and>
         p = (if rows (athletes s) = [] then None
              else Some (real k / real (length (rows (athletes s))) * 100)))) \<and>
   validate_data_quality py_int
     (s\<lparr>athletes := (athletes s)\<lparr>rows := map (\<lambda>r. r(''edition'' \<mapsto> f r)) (rows (athletes s))\<rparr>\<rparr>) =
   validate_data_quality py_int s \<and>
   (\<not> has_col (athletes s) ''year'' \<or>
    (\<exists>r. year_range py_int (column (athletes s) ''year'') = Inr r) \<longrightarrow>
    (\<exists>out'. validate_data_quality py_int s = Inr (out', ())))"
proof -
  have returns: "\<not> has_col (athletes s) ''year'' \<or>
    (\<exists>r. year_range py_int (column (athletes s) ''year'') = Inr r) \<longrightarrow>
    (\<exists>out'. validate_data_quality py_int s = Inr (out', ()))"
    using validate_returns [of s py_int] by blast
  have lines: "validate_data_quality py_int s = Inr (out, ret) \<longrightarrow>
      ret = () \<and>
      (GapWarning g \<in> set out) =
        (has_col (athletes s) ''year'' \<and> g \<in> {1940, 1944} \<and>
         Num (real g) \<in> set (column (athletes s) ''year'')) \<and>
      (GapMissing g \<in> set out) =
        (has_col (athletes s) ''year'' \<and> g \<in> {1940, 1944} \<and>
         Num (real g) \<notin> set (column (athletes s) ''year'')) \<and>
      (CodeWarning c \<in> set out) =
        (has_col (athletes s) ''noc'' \<and> c \<in> {''MIX'', ''URS'', ''GDR'', ''FRG'', ''EUN''} \<and>
         Str c \<in> set (column (athletes s) ''noc'')) \<and>
      (CodeRemoved c \<in> set out) =
        (has_col (athletes s) ''noc'' \<and> c \<in> {''MIX'', ''URS'', ''GDR'', ''FRG'', ''EUN''} \<and>
         Str c \<notin> set (column (athletes s) ''noc'')) \<and>
      (NullCount col k p \<in> set out) =
        (col \<in> {''noc'', ''medal'', ''sport''} \<and> has_col (athletes s) col \<and>
         k = length (filter (\<lambda>r. cell_of r col = NaN) (rows (athletes s))) \<and>
         p = (if rows (athletes s) = [] then None
              else Some (real k / real (length (rows (athletes s))) * 100)))"
  proof
    assume run: "validate_data_quality py_int s = Inr (out, ret)"
    have unit: "ret = ()"
      by simp
    show "ret = () \<and>
      (GapWarning g \<in> set out) =
        (has_col (athletes s) ''year'' \<and> g \<in> {1940, 1944} \<and>
         Num (real g) \<in> set (column (athletes s) ''year'')) \<and>
      (GapMissing g \<in> set out) =
        (has_col (athletes s) ''year'' \<and> g \<in> {1940, 1944} \<and>
         Num (real g) \<notin> set (column (athletes s) ''year'')) \<and>
      (CodeWarning c \<in> set out) =
        (has_col (athletes s) ''noc'' \<and> c \<in> {''MIX'', ''URS'', ''GDR'', ''FRG'', ''EUN''} \<and>
         Str c \<in> set (column (athletes s) ''noc'')) \<and>
      (CodeRemoved c \<in> set out) =
        (has_col (athletes s) ''noc'' \<and> c \<in> {''MIX'', ''URS'', ''GDR'', ''FRG'', ''EUN''} \<and>
         Str c \<notin> set (column (athletes s) ''noc'')) \<and>
      (NullCount col k p \<in> set out) =
        (col \<in> {''noc'', ''medal'', ''sport''} \<and> has_col (athletes s) col \<and>
         k = length (filter (\<lambda>r. cell_of r col = NaN) (rows (athletes s))) \<and>
         p = (if rows (athletes s) = [] then None
              else Some (real k / real (length (rows (athletes s))) * 100)))"
      by (intro conjI unit validate_lines [OF run])
  qed
  show ?thesis
    by (intro conjI lines validate_ignores_edition returns)
qed

theorem validator_period_counterexample:
  "Str ''1906 Summer Olympics'' \<in> set (column (athletes (ex_state ex_1906_left)) ''edition'') \<and>
   validate_data_quality ex_py_int (ex_state ex_1906_left) =
     Inr ([Title, YearRange 1906 1906, GapMissing 1940, GapMissing 1944,
           CodeRemoved ''MIX'', CodeRemoved ''URS'', CodeRemoved ''GDR'', CodeRemoved ''FRG'',
           CodeRemoved ''EUN'', NullTitle, NullCount ''noc'' 0 (Some 0)], ())"
proof -
  have a: "athletes (ex_state ex_1906_left) = ex_1906_left"
    by (simp add: ex_state_def)
  have has: "has_col ex_1906_left ''year''" "has_col ex_1906_left ''noc''"
    "\<not> has_col ex_1906_left ''medal''" "\<not> has_col ex_1906_left ''sport''"
    by (simp_all add: has_col_def ex_1906_left_def)
  have cols: "has_col ex_1906_left ''year''" "has_col ex_1906_left ''noc''"
    "filter (has_col ex_1906_left) [''noc'', ''medal'', ''sport''] = [''noc'']"
    by (simp_all add: has)
  have col: "column ex_1906_left ''year'' = [Num 1906]"
    "column ex_1906_left ''noc'' = [Str ''GRE'']"
    "column ex_1906_left ''edition'' = [Str ''1906 Summer Olympics'']"
    by (simp_all add: column_def cell_of_def ex_1906_left_def)
  have yr: "year_range ex_py_int [Num 1906] = Inr (1906, 1906)"
    by (simp add: year_range_def dropna_def sortable_def is_Str_def int_of_cell_def py_trunc_def)
  have nl: "null_line ex_1906_left ''noc'' = NullCount ''noc'' 0 (Some 0)"
    by (simp add: null_line_def col) (simp add: ex_1906_left_def)
  have c1: "Str ''1906 Summer Olympics'' \<in> set (column (athletes (ex_state ex_1906_left)) ''edition'')"
    by (simp add: a col)
  have c2: "validate_data_quality ex_py_int (ex_state ex_1906_left) =
     Inr ([Title, YearRange 1906 1906, GapMissing 1940, GapMissing 1944,
           CodeRemoved ''MIX'', CodeRemoved ''URS'', CodeRemoved ''GDR'', CodeRemoved ''FRG'',
           CodeRemoved ''EUN'', NullTitle, NullCount ''noc'' 0 (Some 0)], ())"
    by (simp add: validate_data_quality_def a has cols col yr nl gap_line_def code_line_def dropna_def)
  show ?thesis
    by (intro conjI c1 c2)
qed

theorem validator_checks_witness:
  "\<exists>out. validate_data_quality ex_py_int (ex_state ex_unclean) = Inr (out, ()) \<and>
     GapWarning 1940 \<in> set out \<and> GapMissing 1944 \<in> set out \<and>
     CodeWarning ''URS'' \<in> set out \<and> CodeRemoved ''MIX'' \<in> set out \<and>
     NullCount ''medal'' 1 (Some 50) \<in> set out \<and>
     validate_data_quality ex_py_int
       ((ex_state ex_unclean)\<lparr>athletes := (athletes (ex_state ex_unclean))
          \<lparr>rows := map (\<lambda>r. r(''edition'' \<mapsto> Str ''1906 Summer Olympics''))
                    (rows (athletes (ex_state ex_unclean)))\<rparr>\<rparr>) =
     Inr (out, ())"
proof -
  let ?out = "[Title, YearRange 1940 2020, GapWarning 1940, GapMissing 1944,
      CodeRemoved ''MIX'', CodeWarning ''URS'', CodeRemoved ''GDR'', CodeRemoved ''FRG'',
      CodeRemoved ''EUN'', NullTitle, NullCount ''noc'' 0 (Some 0),
      NullCount ''medal'' 1 (Some 50)]"
  have a: "athletes (ex_state ex_unclean) = ex_unclean"
    by (simp add: ex_state_def)
  have has: "has_col ex_unclean ''year''" "has_col ex_unclean ''noc''"
    "has_col ex_unclean ''medal''" "\<not> has_col ex_unclean ''sport''"
    by (simp_all add: has_col_def ex_unclean_def)
  have cols: "has_col ex_unclean ''year''" "has_col ex_unclean ''noc''"
    "has_col ex_unclean ''medal''"
    "filter (has_col ex_unclean) [''noc'', ''medal'', ''sport''] = [''noc'', ''medal'']"
    by (simp_all add: has)
  have col: "column ex_unclean ''year'' = [Num 2020, Num 1940]"
    "column ex_unclean ''noc'' = [Str ''USA'', Str ''URS'']"
    "column ex_unclean ''medal'' = [Str ''Gold'', NaN]"
    by (simp_all add: column_def cell_of_def ex_unclean_def)
  have len: "length (rows ex_unclean) = 2"
    by (simp add: ex_unclean_def)
  have yr: "year_range ex_py_int [Num 2020, Num 1940] = Inr (1940, 2020)"
    by (simp add: year_range_def dropna_def sortable_def is_Str_def int_of_cell_def py_trunc_def
        cell_less_def)
  have nl: "null_line ex_unclean ''noc'' = NullCount ''noc'' 0 (Some 0)"
    "null_line ex_unclean ''medal'' = NullCount ''medal'' 1 (Some 50)"
    by (simp_all add: null_line_def col len)
  have run: "validate_data_quality ex_py_int (ex_state ex_unclean) = Inr (?out, ())"
    by (simp add: validate_data_quality_def a has cols col yr nl gap_line_def code_line_def dropna_def)
  note T1 = validator_checks [of ex_py_int "ex_state ex_unclean" ?out "()" 1940 "''URS''"
      "''medal''" 1 "Some 50" "\<lambda>_. Str ''1906 Summer Olympics''"]
  note T2 = validator_checks [of ex_py_int "ex_state ex_unclean" ?out "()" 1944 "''MIX''"
      "''medal''" 1 "Some 50" "\<lambda>_. Str ''1906 Summer Olympics''"]
  have g1: "GapWarning 1940 \<in> set ?out"
    using T1 run by (simp add: a cols col)
  have g2: "GapMissing 1944 \<in> set ?out"
    using T2 run by (simp add: a cols col)
  have c1: "CodeWarning ''URS'' \<in> set ?out"
    using T1 run by (simp add: a cols col)
  have c2: "CodeRemoved ''MIX'' \<in> set ?out"
    using T2 run by (simp add: a cols col)
  have n1: "NullCount ''medal'' 1 (Some 50) \<in> set ?out"
    using T1 run by simp
  have e: "validate_data_quality ex_py_int
       ((ex_state ex_unclean)\<lparr>athletes := (athletes (ex_state ex_unclean))
          \<lparr>rows := map (\<lambda>r. r(''edition'' \<mapsto> Str ''1906 Summer Olympics''))
                    (rows (athletes (ex_state ex_unclean)))\<rparr>\<rparr>) =
     Inr (?out, ())"
    using T1 run by simp
  have r: "\<exists>out. validate_data_quality ex_py_int (ex_state ex_unclean) = Inr (out, ())"
    using T1 yr by (simp add: a has col)
  show ?thesis
    using r run g1 g2 c1 c2 n1 e by (intro exI [of _ ?out] conjI)
qed

subsection \<open>Missing columns and feature tables\<close>

lemma distinct_unique: "distinct (unique xs)"
  by (induction xs rule: unique.induct) (auto simp: set_unique)

lemma country_feat_count:
  "noc \<noteq> NaN \<Longrightarrow>
   athlete_count (country_feat t noc) = length (filter (\<lambda>r. cell_of r ''noc'' = noc) (rows t))"
  by (simp add: country_feat_def select_def cell_eq_def Let_def cong: conj_cong)

lemma country_features_unique_keys:
  assumes "create_country_features t = Inr fs"
  shows "distinct (map feat_noc fs) \<and>
     set (map feat_noc fs) = set (column t ''noc'') \<and>
     (\<forall>f\<in>set fs. feat_noc f \<noteq> NaN \<longrightarrow>
        athlete_count f = length (filter (\<lambda>r. cell_of r ''noc'' = feat_noc f) (rows t)))"
proof -
  from assms have fs: "fs = map (country_feat t) (unique (column t ''noc''))"
    by (simp add: create_country_features_def Let_def split: if_splits)
  have key: "feat_noc (country_feat t c) = c" for c
    by (simp add: country_feat_def Let_def)
  have keys: "map feat_noc fs = unique (column t ''noc'')"
    by (simp add: fs o_def key)
  have d: "distinct (map feat_noc fs)"
    by (simp only: keys distinct_unique)
  have e: "set (map feat_noc fs) = set (column t ''noc'')"
    by (simp only: keys set_unique)
  have c: "\<forall>f\<in>set fs. feat_noc f \<noteq> NaN \<longrightarrow>
        athlete_count f = length (filter (\<lambda>r. cell_of r ''noc'' = feat_noc f) (rows t))"
    using country_feat_count [of _ t] by (auto simp: fs key)
  show ?thesis
    by (intro conjI d e c)
qed

text \<open>
  C7. Two places raise on a missing optional column. \<^verbatim>\<open>create_sport_strength\<close> on a table
  with the columns noc, sport and medal and no athlete_id column raises KeyError: the
  aggregation still names athlete_id as a key of its dictionary. And
  \<^verbatim>\<open>standardize_country_codes\<close> on an athletes table without a noc column skips the
  guarded block and then raises KeyError at its last check, which reads the column.
\<close>

theorem missing_column_raises:
  "create_sport_strength ex_no_athlete_id = Inl (KeyError ''athlete_id'') \<and>
   standardize_noc ex_editions = (ex_editions, None) \<and>
   standardize_country_codes (ex_state ex_editions) = Inl (KeyError ''noc'')"
proof -
  have a: "create_sport_strength ex_no_athlete_id = Inl (KeyError ''athlete_id'')"
    by (simp add: create_sport_strength_def has_col_def ex_no_athlete_id_def text_table_def)
  have c: "\<not> has_col ex_editions ''noc''"
    by (simp add: has_col_def ex_editions_def text_table_def)
  have b: "standardize_noc ex_editions = (ex_editions, None)"
    by (simp add: standardize_noc_def c)
  have m: "standardize_noc (text_table [] []) = (text_table [] [], None)"
    by (simp add: standardize_noc_def has_col_def text_table_def)
  have d: "standardize_country_codes (ex_state ex_editions) = Inl (KeyError ''noc'')"
    by (simp add: standardize_country_codes_def ex_state_def b c m)
  show ?thesis
    by (intro conjI a b d)
qed

text \<open>
  C9. \<^verbatim>\<open>create_country_features\<close> on a table whose only row has a missing noc returns one
  row, keyed by the missing value, with the athlete count 0, although one input row
  has that code. On a table with a noc column and no row it raises KeyError and derives
  no table.
\<close>

theorem strength_table_missing_code:
  "create_country_features ex_missing_noc =
     Inr [\<lparr>feat_noc = NaN, athlete_count = 0, unique_sports = 0, unique_events = 0,
           medal_counts = None\<rparr>] \<and>
   length (filter (\<lambda>r. cell_of r ''noc'' = NaN) (rows ex_missing_noc)) = 1 \<and>
   create_country_features ex_empty = Inl (KeyError ''noc'')"
proof -
  have a: "create_country_features ex_missing_noc =
     Inr [\<lparr>feat_noc = NaN, athlete_count = 0, unique_sports = 0, unique_events = 0,
           medal_counts = None\<rparr>]"
    by (simp add: create_country_features_def country_feat_def has_col_def column_def
        cell_of_def cell_eq_def select_def nunique_def dropna_def ex_missing_noc_def
        text_table_def Let_def)
  have b: "length (filter (\<lambda>r. cell_of r ''noc'' = NaN) (rows ex_missing_noc)) = 1"
    by (simp add: cell_of_def ex_missing_noc_def text_table_def)
  have c: "create_country_features ex_empty = Inl (KeyError ''noc'')"
    by (simp add: create_country_features_def has_col_def column_def ex_empty_def
        text_table_def Let_def)
  show ?thesis
    by (intro conjI a b c)
qed


end
